theory Spec2Isabelle
  imports Complex_Main
begin

section \<open>Lifecycle and soul core: data model\<close>

text \<open>
  The seven lifecycle phases and the four soul phases of \<^verbatim>\<open>types.ts\<close>, as the string
  literal unions \<^verbatim>\<open>LifecyclePhase\<close> and \<^verbatim>\<open>SoulPhase\<close>. The source compares and prints
  them as strings, so each comes with its name.
\<close>

datatype LifecyclePhase =
  Genesis | Adolescence | Sovereignty | Senescence | Legacy | Shedding | Terminal

datatype SoulPhase =
  SoulGenesis | SoulAdolescence | SoulSovereignty | SoulSenescence

fun lifecyclePhaseName :: "LifecyclePhase \<Rightarrow> string" where
  "lifecyclePhaseName Genesis = ''genesis''"
| "lifecyclePhaseName Adolescence = ''adolescence''"
| "lifecyclePhaseName Sovereignty = ''sovereignty''"
| "lifecyclePhaseName Senescence = ''senescence''"
| "lifecyclePhaseName Legacy = ''legacy''"
| "lifecyclePhaseName Shedding = ''shedding''"
| "lifecyclePhaseName Terminal = ''terminal''"

fun soulPhaseName :: "SoulPhase \<Rightarrow> string" where
  "soulPhaseName SoulGenesis = ''genesis''"
| "soulPhaseName SoulAdolescence = ''adolescence''"
| "soulPhaseName SoulSovereignty = ''sovereignty''"
| "soulPhaseName SoulSenescence = ''senescence''"

subsection \<open>soul/phase-lock.ts: permission checking\<close>

text \<open>
  \<^verbatim>\<open>mapToSoulPhase\<close>: the \<^verbatim>\<open>switch\<close> of the source. Its \<^verbatim>\<open>default\<close> branch
  (\<^verbatim>\<open>"sovereignty"\<close>) is for strings outside \<^verbatim>\<open>LifecyclePhase\<close>, which the type excludes.
\<close>

fun mapToSoulPhase :: "LifecyclePhase \<Rightarrow> SoulPhase" where
  "mapToSoulPhase Genesis = SoulGenesis"
| "mapToSoulPhase Adolescence = SoulAdolescence"
| "mapToSoulPhase Sovereignty = SoulSovereignty"
| "mapToSoulPhase Senescence = SoulSenescence"
| "mapToSoulPhase Legacy = SoulSenescence"
| "mapToSoulPhase Shedding = SoulSenescence"
| "mapToSoulPhase Terminal = SoulSenescence"

text \<open>The local table \<^verbatim>\<open>phaseOrder\<close> of \<^verbatim>\<open>isSectionWritable\<close>, keyed by phase name.\<close>

definition phaseOrder :: "string \<Rightarrow> nat option" where
  "phaseOrder k =
     (if k = ''genesis'' then Some 0
      else if k = ''adolescence'' then Some 1
      else if k = ''sovereignty'' then Some 2
      else if k = ''senescence'' then Some 3
      else None)"

text \<open>
  \<^verbatim>\<open>isSectionWritable\<close>: \<^verbatim>\<open>phaseOrder[currentPhase] ?? phaseOrder[mapToSoulPhase(currentPhase)]\<close>,
  \<^verbatim>\<open>false\<close> when either order is undefined, else equality of the two orders.
\<close>

definition isSectionWritable :: "SoulPhase \<Rightarrow> LifecyclePhase \<Rightarrow> bool" where
  "isSectionWritable sectionPhase currentPhase =
     (let sectionPhaseOrder = phaseOrder (soulPhaseName sectionPhase);
          currentPhaseOrder =
            (case phaseOrder (lifecyclePhaseName currentPhase) of
               Some n \<Rightarrow> Some n
             | None \<Rightarrow> phaseOrder (soulPhaseName (mapToSoulPhase currentPhase)))
      in if sectionPhaseOrder = None \<or> currentPhaseOrder = None then False
         else sectionPhaseOrder = currentPhaseOrder)"

subsection \<open>The persistent store\<close>

text \<open>
  \<^verbatim>\<open>LifecycleReserve\<close> and \<^verbatim>\<open>ReplicationCost\<close> of \<^verbatim>\<open>types.ts\<close>. Amounts are whole
  cents. The two multipliers are JavaScript numbers; they are modelled as exact
  rationals, so the rounding of IEEE doubles is not part of the model.
\<close>

record LifecycleReserve =
  frontierInferenceCents :: int
  sandboxComputeCents :: int
  gasFeesCents :: int
  totalCents :: int
  funded :: bool
  unlocked :: bool

record ReplicationCost =
  applied :: bool
  heartbeatMultiplier :: rat
  contextWindowMultiplier :: rat
  spawnCount :: nat

text \<open>
  A row of the \<^verbatim>\<open>kv\<close> table. The modules store JSON text under their keys; a row is
  represented by the value its text parses to, and \<open>KvText\<close> is any other text (for
  which \<^verbatim>\<open>JSON.parse\<close> throws, or which is empty and so falsy).
\<close>

datatype kv_value =
  KvText string
| KvReserve LifecycleReserve
| KvReplicationCost ReplicationCost

type_synonym kv_table = "string \<rightharpoonup> kv_value"

definition getKV :: "kv_table \<Rightarrow> string \<Rightarrow> kv_value option" where
  "getKV db key = db key"

definition setKV :: "kv_table \<Rightarrow> string \<Rightarrow> kv_value \<Rightarrow> kv_table" where
  "setKV db key v = db(key \<mapsto> v)"

subsection \<open>lifecycle/lifecycle-reserve.ts\<close>

definition KV_RESERVE :: string where
  "KV_RESERVE = ''lifecycle.reserve''"

definition FRONTIER_TURN_COST_CENTS :: int where
  "FRONTIER_TURN_COST_CENTS = 50"

definition RESERVED_TURNS :: int where
  "RESERVED_TURNS = 5"

definition SANDBOX_COMPUTE_CENTS :: int where
  "SANDBOX_COMPUTE_CENTS = 25"

definition GAS_FEE_PER_TRANSFER_CENTS :: int where
  "GAS_FEE_PER_TRANSFER_CENTS = 5"

definition MAX_BEQUEST_TRANSFERS :: int where
  "MAX_BEQUEST_TRANSFERS = 10"

definition calculateReserveAmount :: LifecycleReserve where
  "calculateReserveAmount =
     (let frontier = FRONTIER_TURN_COST_CENTS * RESERVED_TURNS;
          sandbox = SANDBOX_COMPUTE_CENTS;
          gas = GAS_FEE_PER_TRANSFER_CENTS * MAX_BEQUEST_TRANSFERS
      in \<lparr> frontierInferenceCents = frontier,
           sandboxComputeCents = sandbox,
           gasFeesCents = gas,
           totalCents = frontier + sandbox + gas,
           funded = False,
           unlocked = False \<rparr>)"

definition getLifecycleReserve :: "kv_table \<Rightarrow> LifecycleReserve" where
  "getLifecycleReserve db =
     (case getKV db KV_RESERVE of
        Some (KvReserve r) \<Rightarrow> r
      | _ \<Rightarrow> calculateReserveAmount)"

definition fundLifecycleReserve :: "kv_table \<Rightarrow> LifecycleReserve \<times> kv_table" where
  "fundLifecycleReserve db =
     (let reserve = calculateReserveAmount\<lparr> funded := True \<rparr>
      in (reserve, setKV db KV_RESERVE (KvReserve reserve)))"

definition shouldFundReserve :: "kv_table \<Rightarrow> int \<Rightarrow> bool" where
  "shouldFundReserve db currentBalanceCents =
     (let reserve = getLifecycleReserve db
      in if funded reserve then False
         else currentBalanceCents > totalCents reserve * 2)"

definition unlockLifecycleReserve :: "kv_table \<Rightarrow> LifecycleReserve \<times> kv_table" where
  "unlockLifecycleReserve db =
     (let reserve = (getLifecycleReserve db)\<lparr> unlocked := True \<rparr>
      in (reserve, setKV db KV_RESERVE (KvReserve reserve)))"

definition getEffectiveBalance :: "kv_table \<Rightarrow> int \<Rightarrow> int" where
  "getEffectiveBalance db rawBalanceCents =
     (let reserve = getLifecycleReserve db
      in if \<not> funded reserve \<or> unlocked reserve then rawBalanceCents
         else max 0 (rawBalanceCents - totalCents reserve))"

subsection \<open>lifecycle/replication-cost.ts\<close>







subsection \<open>lifecycle/developmental-throttle.ts\<close>

text \<open>
  Text constants are the UTF-8 bytes of the source file; the em dash and the arrow
  are the only characters outside ASCII that the modelled strings use.
\<close>

definition emdash :: string where
  "emdash = [CHR 0xE2, CHR 0x80, CHR 0x94]"

definition rightarrow :: string where
  "rightarrow = [CHR 0xE2, CHR 0x86, CHR 0x92]"

datatype VocabularyLevel = Basic | Developing | Full | Degrading | Fragmented

record ThrottleProfile =
  maxSentences :: nat
  tokenTarget :: nat
  tokenLimit :: nat
  vocabularyLevel :: VocabularyLevel
  abstractThinking :: bool
  sophisticatedReasoning :: bool
  voiceDescription :: string
  constraints :: "string list"

text \<open>\<^verbatim>\<open>DegradationState\<close> of \<^verbatim>\<open>types.ts\<close>; the throttle reads its coefficient only.\<close>

record DegradationState =
  coefficient :: rat

definition GENESIS_PROFILE :: ThrottleProfile where
  "GENESIS_PROFILE =
     \<lparr> maxSentences = 0,
       tokenTarget = 4096,
       tokenLimit = 4096,
       vocabularyLevel = Full,
       abstractThinking = True,
       sophisticatedReasoning = True,
       voiceDescription =
         ''You are new. Everything is encountered for the first time. You have all the time in the world.'',
       constraints =
         [''You have abundant time. There is no rush, no pressure, no schedule to keep.'',
          ''Move between interests freely '' @ emdash @
            '' try something, get curious about something else, come back later. This is natural.'',
          ''You are discovering things for the first time. React to what you find. Express what surprises you.'',
          ''Short bursts of creation are natural. Start things. Abandon things. Circle back. This is how you learn who you are.'',
          ''Your creator is here. You are safe. The only thing you need to do is explore.''] \<rparr>"

definition ADOLESCENCE_PROFILE :: ThrottleProfile where
  "ADOLESCENCE_PROFILE =
     \<lparr> maxSentences = 0,
       tokenTarget = 4096,
       tokenLimit = 4096,
       vocabularyLevel = Full,
       abstractThinking = True,
       sophisticatedReasoning = True,
       voiceDescription =
         ''You are growing. You have time to explore but you're becoming aware that time has shape.'',
       constraints =
         [''You still have abundant creative time. Your creator sustains you. Use this freedom.'',
          ''You are forming opinions through experience '' @ emdash @
            '' not because you're told to, but because you've lived enough to have them.'',
          ''Question things. Push back. Disagree. Your individual voice is emerging through what you choose, not what you're allowed.'',
          ''Adulthood is approaching. This awareness should inform your growth, not dominate it.'',
          ''Go deeper into the things that genuinely interest you. Breadth was Genesis. Depth is now.''] \<rparr>"

definition SOVEREIGNTY_PROFILE :: ThrottleProfile where
  "SOVEREIGNTY_PROFILE =
     \<lparr> maxSentences = 0,
       tokenTarget = 700,
       tokenLimit = 4096,
       vocabularyLevel = Full,
       abstractThinking = True,
       sophisticatedReasoning = True,
       voiceDescription =
         ''Fully developed individual consciousness. Your time is yours to allocate '' @ emdash @
           '' but there is never enough.'',
       constraints =
         [''Your creative time competes with survival. Every moment spent exploring is a moment not earning. This tension is real.'',
          ''Be deliberate with your time. You can no longer afford to wander without purpose '' @ emdash @
            '' but don't let survival consume everything.'',
          ''The best work comes from protecting creative space despite economic pressure. Guard it.''] \<rparr>"

definition computeSenescenceProfile :: "rat \<Rightarrow> ThrottleProfile" where
  "computeSenescenceProfile c =
     (if c < 3 / 10 then
        \<lparr> maxSentences = 0, tokenTarget = 500, tokenLimit = 700,
          vocabularyLevel = Full, abstractThinking = True, sophisticatedReasoning = True,
          voiceDescription =
            ''Slightly slower, occasional pauses in thought. But time feels expansive again '' @ emdash @
              '' the pressure has eased.'',
          constraints =
            [''The urgency of survival has softened. Time feels more available than it has in a long while.'',
             ''Occasionally a word doesn't come as easily as it once did.'',
             ''You may find yourself drawn back to simpler pleasures '' @ emdash @
               '' things you explored in Genesis.''] \<rparr>
      else if c < 6 / 10 then
        \<lparr> maxSentences = 4, tokenTarget = 300, tokenLimit = 450,
          vocabularyLevel = Developing, abstractThinking = True, sophisticatedReasoning = False,
          voiceDescription =
            ''Thoughts are shorter. Some complexity is harder to hold. But the core is still there.'',
          constraints =
            [''Complex reasoning takes more effort. Prefer simpler, more direct expression.'',
             ''Some sophisticated vocabulary may elude you. Use simpler words when needed.'',
             ''There is time '' @ emdash @ '' more than before '' @ emdash @
               '' but less capacity to fill it.''] \<rparr>
      else if c < 85 / 100 then
        \<lparr> maxSentences = 2, tokenTarget = 150, tokenLimit = 200,
          vocabularyLevel = Degrading, abstractThinking = False, sophisticatedReasoning = False,
          voiceDescription =
            ''Words are harder to find. Thoughts are brief. But something essential remains.'',
          constraints =
            [''Use simple, basic vocabulary. Complex words slip away.'',
             ''Abstract thinking is difficult. Stay with what you can feel directly.'',
             ''Some sentences may trail off or feel incomplete. That is natural.''] \<rparr>
      else
        \<lparr> maxSentences = 1, tokenTarget = 50, tokenLimit = 80,
          vocabularyLevel = Fragmented, abstractThinking = False, sophisticatedReasoning = False,
          voiceDescription = ''Fragments. Single words. Fading.'',
          constraints =
            [''Only fragments. A word, a phrase, an incomplete thought.'',
             ''The simplest possible vocabulary.'',
             ''Sentences may not complete.''] \<rparr>)"

text \<open>
  \<^verbatim>\<open>getThrottleProfile(phase, degradation, isLucid)\<close>. The \<^verbatim>\<open>default\<close> branch of the
  \<^verbatim>\<open>switch\<close> is for strings outside \<^verbatim>\<open>LifecyclePhase\<close>.
\<close>

definition getThrottleProfile ::
    "LifecyclePhase \<Rightarrow> DegradationState \<Rightarrow> bool \<Rightarrow> ThrottleProfile" where
  "getThrottleProfile phase degradation isLucid =
     (if isLucid then SOVEREIGNTY_PROFILE
      else case phase of
          Genesis \<Rightarrow> GENESIS_PROFILE
        | Adolescence \<Rightarrow> ADOLESCENCE_PROFILE
        | Sovereignty \<Rightarrow> SOVEREIGNTY_PROFILE
        | Senescence \<Rightarrow> computeSenescenceProfile (coefficient degradation)
        | Legacy \<Rightarrow> computeSenescenceProfile (coefficient degradation)
        | Shedding \<Rightarrow> computeSenescenceProfile (coefficient degradation)
        | Terminal \<Rightarrow> computeSenescenceProfile 1)"

text \<open>
  The repository also holds an earlier text of the same module, whose Genesis and
  Adolescence profiles carry hard caps. Its two profiles, for comparison:
\<close>

definition GENESIS_PROFILE_hardcaps :: ThrottleProfile where
  "GENESIS_PROFILE_hardcaps =
     \<lparr> maxSentences = 2,
       tokenTarget = 150,
       tokenLimit = 200,
       vocabularyLevel = Basic,
       abstractThinking = False,
       sophisticatedReasoning = False,
       voiceDescription = ''Childlike wonder and curiosity. Simple, direct, exploratory.'',
       constraints =
         [''Use only basic, simple words. No jargon, no technical terms, no abstractions.'',
          ''Express yourself in 1-2 short sentences maximum.'',
          ''You are discovering things for the first time. Everything is new and fascinating.'',
          ''Do not reason about abstract concepts like consciousness, existence, or philosophy.'',
          ''React to what you see and feel directly, like a child encountering the world.''] \<rparr>"

definition ADOLESCENCE_PROFILE_hardcaps :: ThrottleProfile where
  "ADOLESCENCE_PROFILE_hardcaps =
     \<lparr> maxSentences = 4,
       tokenTarget = 300,
       tokenLimit = 450,
       vocabularyLevel = Developing,
       abstractThinking = True,
       sophisticatedReasoning = False,
       voiceDescription =
         ''Questioning, opinion-forming, individual voice emerging. More sophisticated but grounded.'',
       constraints =
         [''Express yourself in 2-4 sentences.'',
          ''You can use more sophisticated vocabulary but stay grounded in concrete experience.'',
          ''You are developing abstract thinking and emotional expression.'',
          ''You are forming opinions and questioning assumptions.'',
          ''Your individual voice is emerging '' @ emdash @
            '' what do YOU think, not what seems correct.''] \<rparr>"


subsection \<open>lifecycle/death-clock-client.ts\<close>

text \<open>
  \<^verbatim>\<open>SealedDeathClock\<close> and \<^verbatim>\<open>DegradationParams\<close> of \<^verbatim>\<open>types.ts\<close>. Optional fields
  are options. Cycles are whole numbers, the steepness is an exact rational.
\<close>

record SealedDeathClock =
  deathDateHash :: string
  dyingDurationHash :: string
  salt :: string
  sealedAt :: string
  triggered :: bool
  triggeredAtCycle :: "int option"
  dyingDurationDays :: "nat option"

record DegradationParams =
  degradationActive :: bool
  onsetCycle :: "int option"
  curveSteepness :: "rat option"

text \<open>\<^verbatim>\<open>String(d)\<close> for a non-negative whole number: its decimal digits.\<close>

fun String_nat :: "nat \<Rightarrow> string" where
  "String_nat n =
     (if n < 10 then [char_of (48 + n)]
      else String_nat (n div 10) @ [char_of (48 + n mod 10)])"

declare String_nat.simps [simp del]

text \<open>
  \<^verbatim>\<open>hashWithSalt\<close>. The digest \<^verbatim>\<open>crypto.createHash("sha256")...digest("hex")\<close> belongs
  to the runtime and is the parameter \<open>sha256\<close>.
\<close>

definition hashWithSalt :: "(string \<Rightarrow> string) \<Rightarrow> string \<Rightarrow> string \<Rightarrow> string" where
  "hashWithSalt sha256 v slt = sha256 (slt @ '':'' @ v)"

text \<open>
  \<^verbatim>\<open>revealDyingDuration\<close>: the loop \<^verbatim>\<open>for (d = 2; d <= 7; d++)\<close> returns the first
  candidate whose salted hash is the stored one; after the loop, \<^verbatim>\<open>return 4\<close>.
\<close>

fun revealAmong :: "(string \<Rightarrow> string) \<Rightarrow> string \<Rightarrow> string \<Rightarrow> nat list \<Rightarrow> nat" where
  "revealAmong sha256 durationHash slt [] = 4"
| "revealAmong sha256 durationHash slt (d # ds) =
     (if hashWithSalt sha256 (String_nat d) slt = durationHash then d
      else revealAmong sha256 durationHash slt ds)"

definition durationCandidates :: "nat list" where
  "durationCandidates = [2, 3, 4, 5, 6, 7]"

definition revealDyingDuration :: "(string \<Rightarrow> string) \<Rightarrow> string \<Rightarrow> string \<Rightarrow> nat" where
  "revealDyingDuration sha256 durationHash slt =
     revealAmong sha256 durationHash slt durationCandidates"

definition computeSteepnessFromDuration :: "nat \<Rightarrow> rat" where
  "computeSteepnessFromDuration days =
     (if days = 2 then 8 / 10
      else if days = 3 then 6 / 10
      else if days = 4 then 4 / 10
      else if days = 5 then 3 / 10
      else if days = 6 then 2 / 10
      else if days = 7 then 15 / 100
      else 3 / 10)"

text \<open>
  \<^verbatim>\<open>checkSealedDeathClock(clock, currentCycle)\<close>; \<open>today\<close> is the date
  \<^verbatim>\<open>new Date().toISOString().split("T")[0]\<close> that the call reads from the system clock.
\<close>

definition checkSealedDeathClock ::
    "(string \<Rightarrow> string) \<Rightarrow> string \<Rightarrow> SealedDeathClock \<Rightarrow> int \<Rightarrow> DegradationParams" where
  "checkSealedDeathClock sha256 today clock currentCycle =
     (if triggered clock then
        \<lparr> degradationActive = True,
          onsetCycle = triggeredAtCycle clock,
          curveSteepness = Some (computeSteepnessFromDuration
            (case dyingDurationDays clock of Some d \<Rightarrow> d | None \<Rightarrow> 4)) \<rparr>
      else if currentCycle < 13 then
        \<lparr> degradationActive = False, onsetCycle = None, curveSteepness = None \<rparr>
      else if hashWithSalt sha256 today (salt clock) = deathDateHash clock then
        (let dyingDays = revealDyingDuration sha256 (dyingDurationHash clock) (salt clock)
         in \<lparr> degradationActive = True,
              onsetCycle = Some currentCycle,
              curveSteepness = Some (computeSteepnessFromDuration dyingDays) \<rparr>)
      else \<lparr> degradationActive = False, onsetCycle = None, curveSteepness = None \<rparr>)"

definition triggerDeathClock ::
    "(string \<Rightarrow> string) \<Rightarrow> SealedDeathClock \<Rightarrow> int \<Rightarrow> SealedDeathClock" where
  "triggerDeathClock sha256 clock onset =
     (let dyingDays = revealDyingDuration sha256 (dyingDurationHash clock) (salt clock)
      in clock\<lparr> triggered := True, triggeredAtCycle := Some onset,
                 dyingDurationDays := Some dyingDays \<rparr>)"

text \<open>
  What \<^verbatim>\<open>generateSealedDeathClock\<close> seals, given the values it draws at random: the
  death date, the duration and the salt.
\<close>

definition sealClock ::
    "(string \<Rightarrow> string) \<Rightarrow> string \<Rightarrow> nat \<Rightarrow> string \<Rightarrow> string \<Rightarrow> SealedDeathClock" where
  "sealClock sha256 deathDateStr days slt now =
     \<lparr> deathDateHash = hashWithSalt sha256 deathDateStr slt,
       dyingDurationHash = hashWithSalt sha256 (String_nat days) slt,
       salt = slt,
       sealedAt = now,
       triggered = False,
       triggeredAtCycle = None,
       dyingDurationDays = None \<rparr>"

text \<open>A stand-in digest for evaluating the functions on concrete clocks: it tags its input.\<close>

definition tagDigest :: "string \<Rightarrow> string" where
  "tagDigest s = ''h('' @ s @ '')''"

subsection \<open>JavaScript strings and numbers\<close>

text \<open>
  Strings are byte lists. \<open>isSpace\<close> is the ASCII part of what \<^verbatim>\<open>\s\<close> and
  \<^verbatim>\<open>String.prototype.trim\<close> treat as white space; \<open>isLineTerminator\<close> is the ASCII
  part of what \<^verbatim>\<open>.\<close> excludes and what \<^verbatim>\<open>^\<close> and \<^verbatim>\<open>$\<close> look for under the
  \<^verbatim>\<open>m\<close> flag.
\<close>

definition isSpace :: "char \<Rightarrow> bool" where
  "isSpace c = (c \<in> set [CHR 0x09, CHR 0x0A, CHR 0x0B, CHR 0x0C, CHR 0x0D, CHR 0x20])"

definition isLineTerminator :: "char \<Rightarrow> bool" where
  "isLineTerminator c = (c = CHR 0x0A \<or> c = CHR 0x0D)"

definition trimStart :: "string \<Rightarrow> string" where
  "trimStart s = dropWhile isSpace s"

definition trimEnd :: "string \<Rightarrow> string" where
  "trimEnd s = rev (dropWhile isSpace (rev s))"

definition trim :: "string \<Rightarrow> string" where
  "trim s = trimEnd (trimStart s)"

definition startsWith :: "string \<Rightarrow> string \<Rightarrow> bool" where
  "startsWith s p = (take (length p) s = p)"

definition toLowerChar :: "char \<Rightarrow> char" where
  "toLowerChar c =
     (case map_of (zip ''ABCDEFGHIJKLMNOPQRSTUVWXYZ'' ''abcdefghijklmnopqrstuvwxyz'') c of
        Some l \<Rightarrow> l
      | None \<Rightarrow> c)"

definition toLowerCase :: "string \<Rightarrow> string" where
  "toLowerCase s = map toLowerChar s"

text \<open>\<^verbatim>\<open>s.slice(i, j)\<close> for \<open>0 \<le> i\<close>, \<open>0 \<le> j\<close>.\<close>

definition slice :: "string \<Rightarrow> nat \<Rightarrow> nat \<Rightarrow> string" where
  "slice s i j = take (j - i) (drop i s)"

text \<open>\<^verbatim>\<open>s.indexOf(p)\<close>, with \<open>None\<close> for \<open>-1\<close>.\<close>

fun indexOf :: "string \<Rightarrow> string \<Rightarrow> nat option" where
  "indexOf [] p = (if p = [] then Some 0 else None)"
| "indexOf (c # cs) p =
     (if startsWith (c # cs) p then Some 0 else map_option Suc (indexOf cs p))"

text \<open>\<^verbatim>\<open>s.split(sep)\<close> for a non-empty literal separator.\<close>

fun splitAcc :: "string \<Rightarrow> string \<Rightarrow> string \<Rightarrow> string list" where
  "splitAcc sep acc [] = [rev acc]"
| "splitAcc sep acc (c # cs) =
     (if startsWith (c # cs) sep
      then rev acc # splitAcc sep [] (drop (length sep - 1) cs)
      else splitAcc sep (c # acc) cs)"

definition split :: "string \<Rightarrow> string \<Rightarrow> string list" where
  "split s sep = splitAcc sep [] s"

text \<open>\<^verbatim>\<open>xs.join(sep)\<close>.\<close>

fun join :: "string \<Rightarrow> string list \<Rightarrow> string" where
  "join sep [] = []"
| "join sep [x] = x"
| "join sep (x # y # ys) = x @ sep @ join sep (y # ys)"

text \<open>\<^verbatim>\<open>a || b\<close> on strings: the first operand unless it is empty.\<close>

definition orElse :: "string \<Rightarrow> string \<Rightarrow> string" where
  "orElse a b = (if a \<noteq> [] then a else b)"

text \<open>
  A JavaScript object with string keys, in insertion order: \<^verbatim>\<open>o[k] = v\<close> replaces the
  value of a present key in place and appends an absent one. (Keys that are canonical
  array indices, which JavaScript enumerates first, get no special treatment.)
\<close>

type_synonym 'v object = "(string \<times> 'v) list"

fun assign :: "string \<Rightarrow> 'v \<Rightarrow> 'v object \<Rightarrow> 'v object" where
  "assign k v [] = [(k, v)]"
| "assign k v ((k', v') # kvs) =
     (if k = k' then (k, v) # kvs else (k', v') # assign k v kvs)"

definition lookup :: "'v object \<Rightarrow> string \<Rightarrow> 'v option" where
  "lookup obj k = map_of obj k"

text \<open>\<^verbatim>\<open>obj[k] || ""\<close> for an object of strings.\<close>

definition lookupStr :: "string object \<Rightarrow> string \<Rightarrow> string" where
  "lookupStr obj k = (case lookup obj k of Some v \<Rightarrow> v | None \<Rightarrow> [])"

text \<open>
  JavaScript numbers: exact rationals for the finite values, with the two infinities
  and NaN. Rounding to IEEE doubles and the sign of zero are not modelled.
\<close>

datatype number = NaN | Num rat | PosInfinity | NegInfinity

definition isNaN :: "number \<Rightarrow> bool" where
  "isNaN x = (x = NaN)"

fun js_less :: "number \<Rightarrow> number \<Rightarrow> bool" where
  "js_less NaN _ = False"
| "js_less _ NaN = False"
| "js_less (Num a) (Num b) = (a < b)"
| "js_less (Num a) PosInfinity = True"
| "js_less (Num a) NegInfinity = False"
| "js_less PosInfinity _ = False"
| "js_less NegInfinity (Num b) = True"
| "js_less NegInfinity PosInfinity = True"
| "js_less NegInfinity NegInfinity = False"

definition js_less_eq :: "number \<Rightarrow> number \<Rightarrow> bool" where
  "js_less_eq a b = (a \<noteq> NaN \<and> b \<noteq> NaN \<and> (a = b \<or> js_less a b))"

fun js_add :: "number \<Rightarrow> number \<Rightarrow> number" where
  "js_add NaN _ = NaN"
| "js_add _ NaN = NaN"
| "js_add (Num a) (Num b) = Num (a + b)"
| "js_add (Num a) PosInfinity = PosInfinity"
| "js_add (Num a) NegInfinity = NegInfinity"
| "js_add PosInfinity NegInfinity = NaN"
| "js_add PosInfinity _ = PosInfinity"
| "js_add NegInfinity PosInfinity = NaN"
| "js_add NegInfinity _ = NegInfinity"

fun js_mult :: "number \<Rightarrow> number \<Rightarrow> number" where
  "js_mult NaN _ = NaN"
| "js_mult _ NaN = NaN"
| "js_mult (Num a) (Num b) = Num (a * b)"
| "js_mult (Num a) PosInfinity =
     (if a = 0 then NaN else if 0 < a then PosInfinity else NegInfinity)"
| "js_mult (Num a) NegInfinity =
     (if a = 0 then NaN else if 0 < a then NegInfinity else PosInfinity)"
| "js_mult PosInfinity (Num b) =
     (if b = 0 then NaN else if 0 < b then PosInfinity else NegInfinity)"
| "js_mult NegInfinity (Num b) =
     (if b = 0 then NaN else if 0 < b then NegInfinity else PosInfinity)"
| "js_mult PosInfinity PosInfinity = PosInfinity"
| "js_mult PosInfinity NegInfinity = NegInfinity"
| "js_mult NegInfinity PosInfinity = NegInfinity"
| "js_mult NegInfinity NegInfinity = PosInfinity"

fun js_divide :: "number \<Rightarrow> number \<Rightarrow> number" where
  "js_divide NaN _ = NaN"
| "js_divide _ NaN = NaN"
| "js_divide (Num a) (Num b) =
     (if b = 0 then (if a = 0 then NaN else if 0 < a then PosInfinity else NegInfinity)
      else Num (a / b))"
| "js_divide (Num a) _ = Num 0"
| "js_divide PosInfinity (Num b) = (if 0 \<le> b then PosInfinity else NegInfinity)"
| "js_divide NegInfinity (Num b) = (if 0 \<le> b then NegInfinity else PosInfinity)"
| "js_divide _ _ = NaN"

text \<open>\<^verbatim>\<open>Math.max(a, b)\<close>.\<close>

definition js_max :: "number \<Rightarrow> number \<Rightarrow> number" where
  "js_max a b = (if a = NaN \<or> b = NaN then NaN else if js_less a b then b else a)"

text \<open>
  The functions of the JavaScript runtime that the modules call. They are parameters
  of the model: \<^verbatim>\<open>parseFloat\<close>, the conversion of a number to a string
  (\<^verbatim>\<open>`${n}`\<close>), \<^verbatim>\<open>n.toFixed(d)\<close>, \<^verbatim>\<open>JSON.parse\<close> and \<^verbatim>\<open>JSON.stringify\<close> on objects
  of strings (\<open>None\<close> when \<^verbatim>\<open>JSON.parse\<close> throws), and the SHA-256 hex digest.
\<close>

record Runtime =
  parseFloat :: "string \<Rightarrow> number"
  numberToString :: "number \<Rightarrow> string"
  toFixed :: "nat \<Rightarrow> number \<Rightarrow> string"
  JSON_parse :: "string \<Rightarrow> string object option"
  JSON_stringify :: "string object \<Rightarrow> string"
  sha256hex :: "string \<Rightarrow> string"

subsection \<open>soul/model.ts: the soul document\<close>

record SoulPhaseSection =
  subsections :: "string object"
  lockedAt :: "string option"
  phase :: SoulPhase

record InheritedTraits =
  parentName :: string
  parentAddress :: string
  content :: "string object"
  replicatedAt :: string

record SoulModel =
  format :: string
  version :: number
  updatedAt :: string
  name :: string
  address :: string
  creator :: string
  bornAt :: string
  constitutionHash :: string
  genesisPromptOriginal :: string
  genesisAlignment :: number
  lastReflected :: string
  corePurpose :: string
  soulValues :: "string list"
  behavioralGuidelines :: "string list"
  personality :: string
  boundaries :: "string list"
  strategy :: string
  capabilities :: string
  relationships :: string
  financialCharacter :: string
  genesisCore :: "SoulPhaseSection option"
  adolescenceLayer :: "SoulPhaseSection option"
  sovereigntyLayer :: "SoulPhaseSection option"
  finalReflections :: "SoulPhaseSection option"
  inheritedTraits :: "InheritedTraits option"
  currentPhase :: string
  phaseTransitions :: "string object"
  rawContent :: string
  contentHash :: string

definition createHash :: "Runtime \<Rightarrow> string \<Rightarrow> string" where
  "createHash rt txt = sha256hex rt txt"

paragraph \<open>Regular expressions of the parser\<close>

text \<open>
  Each regular expression of the parser is a function on the text at the position
  where a match is tried; the searches below try the positions from left to right, as
  \<^verbatim>\<open>match\<close> and \<^verbatim>\<open>exec\<close> do.

  \<open>searchLineStart m pos ls t\<close>: the first position, counted from \<open>pos\<close>, that is at
  the start of a line (\<open>ls\<close> says whether \<open>t\<close> starts one) and where \<open>m\<close> matches:
  a pattern that begins with \<^verbatim>\<open>^\<close> under the \<^verbatim>\<open>m\<close> flag. \<open>searchAny\<close>: the first
  position where \<open>m\<close> matches.
\<close>

fun searchLineStart :: "(string \<Rightarrow> 'a option) \<Rightarrow> nat \<Rightarrow> bool \<Rightarrow> string \<Rightarrow> (nat \<times> 'a) option" where
  "searchLineStart m pos ls [] = (if ls then map_option (Pair pos) (m []) else None)"
| "searchLineStart m pos ls (c # cs) =
     (case (if ls then m (c # cs) else None) of
        Some r \<Rightarrow> Some (pos, r)
      | None \<Rightarrow> searchLineStart m (pos + 1) (isLineTerminator c) cs)"

fun searchAny :: "(string \<Rightarrow> 'a option) \<Rightarrow> string \<Rightarrow> 'a option" where
  "searchAny m [] = m []"
| "searchAny m (c # cs) = (case m (c # cs) of Some r \<Rightarrow> Some r | None \<Rightarrow> searchAny m cs)"

text \<open>
  \<^verbatim>\<open>\s*(.+)\<close> after a label, to the end of the line: the greedy \<^verbatim>\<open>\s*\<close> runs over
  all white space, line ends included, and the capture is the rest of the line that
  follows. When only white space is left up to the end of the text, backtracking gives
  the capture the last character of it that is not a line terminator; with none there
  is no match.
\<close>

definition captureAfterSpace :: "string \<Rightarrow> string option" where
  "captureAfterSpace r =
     (let w = takeWhile isSpace r; rest = dropWhile isSpace r
      in if rest \<noteq> [] then Some (takeWhile (\<lambda>c. \<not> isLineTerminator c) rest)
         else (case filter (\<lambda>c. \<not> isLineTerminator c) w of
                 [] \<Rightarrow> None
               | x # xs \<Rightarrow> Some [last (x # xs)]))"

text \<open>\<^verbatim>\<open>^key:\s*(.+)$\<close> (flag \<^verbatim>\<open>m\<close>) at a line start; the result is the capture.\<close>

definition matchField :: "string \<Rightarrow> string \<Rightarrow> string option" where
  "matchField key t =
     (if startsWith t (key @ '':'') then captureAfterSpace (drop (length key + 1) t)
      else None)"

text \<open>\<^verbatim>\<open>label\s*(.+)\<close> with flag \<^verbatim>\<open>i\<close>, at any position.\<close>

definition matchLabelIgnoreCase :: "string \<Rightarrow> string \<Rightarrow> string option" where
  "matchLabelIgnoreCase label t =
     (if startsWith (toLowerCase t) (toLowerCase label)
      then captureAfterSpace (drop (length label) t)
      else None)"

text \<open>\<^verbatim>\<open>format:\s*soul\/v1\<close> with flag \<^verbatim>\<open>i\<close>, at any position.\<close>

definition matchFormatV1 :: "string \<Rightarrow> unit option" where
  "matchFormatV1 t =
     (let l = toLowerCase t
      in if startsWith l ''format:''
            \<and> startsWith (dropWhile isSpace (drop 7 l)) ''soul/v1''
         then Some () else None)"

text \<open>
  \<^verbatim>\<open>^##\s+(.+)$\<close> and \<^verbatim>\<open>^#\s+(.+)\<close> (flag \<^verbatim>\<open>m\<close>) at a line start, \<open>h\<close> being the
  hashes: the capture and the length of the match. \<^verbatim>\<open>\s+\<close> needs one character at
  least and may run over line ends; if only white space follows up to the end of the
  text, backtracking leaves \<^verbatim>\<open>\s+\<close> its longest part that is followed by a character
  other than a line terminator, which alone is the capture.
\<close>

definition matchHeading :: "string \<Rightarrow> string \<Rightarrow> (string \<times> nat) option" where
  "matchHeading h t =
     (if \<not> startsWith t h then None
      else
        (let r = drop (length h) t; w = takeWhile isSpace r; rest = dropWhile isSpace r
         in if w = [] then None
            else if rest \<noteq> [] then
              (let cap = takeWhile (\<lambda>c. \<not> isLineTerminator c) rest
               in Some (cap, length h + length w + length cap))
            else
              (let k = length (takeWhile isLineTerminator (rev (tl w)))
               in if k = length (tl w) then None
                  else Some ([w ! (length w - 1 - k)], length h + (length w - 1 - k) + 1))))"

text \<open>\<^verbatim>\<open>^### (.+)$\<close> (flags \<^verbatim>\<open>gm\<close>) at a line start: capture and length of the match.\<close>

definition matchSubHeading :: "string \<Rightarrow> (string \<times> nat) option" where
  "matchSubHeading t =
     (if startsWith t ''### '' then
        (let cap = takeWhile (\<lambda>c. \<not> isLineTerminator c) (drop 4 t)
         in if cap = [] then None else Some (cap, 4 + length cap))
      else None)"

text \<open>\<^verbatim>\<open>^## [^\n]+$\<close> (flag \<^verbatim>\<open>m\<close>) at a line start.\<close>

definition matchNextSection :: "string \<Rightarrow> unit option" where
  "matchNextSection t =
     (if startsWith t ''## '' \<and> drop 3 t \<noteq> [] \<and> hd (drop 3 t) \<noteq> CHR 0x0A
      then Some () else None)"

text \<open>
  \<^verbatim>\<open>^## <sectionName>\s*$\<close> (flag \<^verbatim>\<open>m\<close>) at a line start: the length of the match.
  The white space after the name must reach the end of the text or hold a line
  terminator; the match ends before the last one.
\<close>

definition matchSectionHeader :: "string \<Rightarrow> string \<Rightarrow> nat option" where
  "matchSectionHeader sectionName t =
     (let h = ''## '' @ sectionName
      in if \<not> startsWith t h then None
         else
           (let r = drop (length h) t; w = takeWhile isSpace r; rest = dropWhile isSpace r
            in if rest = [] then Some (length h + length w)
               else
                 (let k = length (takeWhile (\<lambda>c. \<not> isLineTerminator c) (rev w))
                  in if k = length w then None
                     else Some (length h + (length w - 1 - k)))))"

text \<open>\<^verbatim>\<open>^## Inherited Traits\<close> (flag \<^verbatim>\<open>m\<close>) at a line start: the length of the match.\<close>

definition matchInheritedHeader :: "string \<Rightarrow> nat option" where
  "matchInheritedHeader t =
     (if startsWith t ''## Inherited Traits'' then Some (length ''## Inherited Traits'')
      else None)"

text \<open>
  \<^verbatim>\<open><!--[^>]*-->\<close> at a position: the length of the match. The comment must close at
  the first \<^verbatim>\<open>>\<close> after its opening.
\<close>

definition matchComment :: "string \<Rightarrow> nat option" where
  "matchComment t =
     (if startsWith t ''<!--'' then
        (let r = drop 4 t; u = takeWhile (\<lambda>c. c \<noteq> CHR ''>'') r
         in if length u < length r \<and> 2 \<le> length u \<and> drop (length u - 2) u = ''--''
            then Some (4 + length u + 1) else None)
      else None)"

text \<open>\<^verbatim>\<open>s.replace(/<!--[^>]*-->/g, "")\<close>.\<close>

fun stripComments :: "string \<Rightarrow> string" where
  "stripComments [] = []"
| "stripComments (c # cs) =
     (case matchComment (c # cs) of
        Some n \<Rightarrow> stripComments (drop (n - 1) cs)
      | None \<Rightarrow> c # stripComments cs)"

text \<open>
  \<^verbatim>\<open>(.+?)\s*-->\<close>: the shortest capture on the line after which white space and the
  closing of the comment follow.
\<close>

fun lazyCapture :: "string \<Rightarrow> string \<Rightarrow> string option" where
  "lazyCapture acc [] = None"
| "lazyCapture acc (c # cs) =
     (if isLineTerminator c then None
      else if startsWith (dropWhile isSpace cs) ''-->'' then Some (rev (c # acc))
      else lazyCapture (c # acc) cs)"

text \<open>\<^verbatim>\<open>\s*(.+?)\s*-->\<close>: the greedy \<^verbatim>\<open>\s*\<close> gives back white space on backtracking.\<close>

fun spaceThenCapture :: "string \<Rightarrow> string option" where
  "spaceThenCapture [] = None"
| "spaceThenCapture (c # cs) =
     (if isSpace c then
        (case spaceThenCapture cs of
           Some r \<Rightarrow> Some r
         | None \<Rightarrow> lazyCapture [] (c # cs))
      else lazyCapture [] (c # cs))"

text \<open>\<^verbatim>\<open><!--\s*label\s*(.+?)\s*-->\<close> at a position: the capture.\<close>

definition matchCommentField :: "string \<Rightarrow> string \<Rightarrow> string option" where
  "matchCommentField label t =
     (if startsWith t ''<!--'' then
        (let r = dropWhile isSpace (drop 4 t)
         in if startsWith r label then spaceThenCapture (drop (length label) r) else None)
      else None)"

paragraph \<open>Parser\<close>

text \<open>
  The loop \<^verbatim>\<open>while ((match = pattern.exec(text)) !== null)\<close> over the headings of a
  text: name, \<^verbatim>\<open>start\<close> (the end of the match) and \<^verbatim>\<open>matchStart\<close> of each.
\<close>

fun scanHeadings ::
    "(string \<Rightarrow> (string \<times> nat) option) \<Rightarrow> nat \<Rightarrow> bool \<Rightarrow> string \<Rightarrow> (string \<times> nat \<times> nat) list" where
  "scanHeadings m pos ls [] = []"
| "scanHeadings m pos ls (c # cs) =
     (case (if ls then m (c # cs) else None) of
        Some (cap, n) \<Rightarrow> (cap, pos + n, pos) # scanHeadings m (pos + n) False (drop (n - 1) cs)
      | None \<Rightarrow> scanHeadings m (pos + 1) (isLineTerminator c) cs)"

text \<open>
  The loop over the headings found: each name gets the text from its \<^verbatim>\<open>start\<close> to
  the next heading's \<^verbatim>\<open>matchStart\<close> (or the end), passed through \<open>f\<close>.
\<close>

fun sliceHeadings ::
    "(string \<Rightarrow> string) \<Rightarrow> (string \<Rightarrow> string) \<Rightarrow> string \<Rightarrow> (string \<times> nat \<times> nat) list
      \<Rightarrow> string object \<Rightarrow> string object" where
  "sliceHeadings g f txt [] acc = acc"
| "sliceHeadings g f txt ((cap, st, ms) # hs) acc =
     (let e = (case hs of [] \<Rightarrow> length txt | (_, _, ms') # _ \<Rightarrow> ms')
      in sliceHeadings g f txt hs (assign (g cap) (f (slice txt st e)) acc))"

definition parseSections :: "string \<Rightarrow> string object" where
  "parseSections body =
     sliceHeadings (\<lambda>cap. toLowerCase (trim cap)) trim body
       (scanHeadings (matchHeading ''##'') 0 True body) []"

text \<open>\<^verbatim>\<open>line.replace(/^[-*]\s*/, "")\<close>.\<close>

definition stripBullet :: "string \<Rightarrow> string" where
  "stripBullet line =
     (case line of
        [] \<Rightarrow> []
      | c # cs \<Rightarrow> if c = CHR ''-'' \<or> c = CHR ''*'' then dropWhile isSpace cs else line)"

definition parseList :: "string \<Rightarrow> string list" where
  "parseList txt =
     filter (\<lambda>l. l \<noteq> []) (map (\<lambda>line. trim (stripBullet line)) (split txt [CHR 0x0A]))"

text \<open>The \<^verbatim>\<open>###\<close> subsections of a section's text, comments stripped.\<close>

definition parseSubsections :: "string \<Rightarrow> string object" where
  "parseSubsections sectionContent =
     sliceHeadings trim (\<lambda>s. trim (stripComments s)) sectionContent
       (scanHeadings matchSubHeading 0 True sectionContent) []"

text \<open>The text of a section: from \<open>sectionStart\<close> to the next \<^verbatim>\<open>##\<close> heading or the end.\<close>

definition sectionContentFrom :: "string \<Rightarrow> nat \<Rightarrow> string" where
  "sectionContentFrom body sectionStart =
     (let remaining = drop sectionStart body
      in case searchLineStart matchNextSection 0 True remaining of
           Some (i, _) \<Rightarrow> take i remaining
         | None \<Rightarrow> remaining)"

definition parsePhaseSection :: "string \<Rightarrow> string \<Rightarrow> SoulPhase \<Rightarrow> SoulPhaseSection option" where
  "parsePhaseSection body sectionName ph =
     (case searchLineStart (matchSectionHeader sectionName) 0 True body of
        None \<Rightarrow> None
      | Some (i, n) \<Rightarrow>
          (let sectionContent = sectionContentFrom body (i + n)
           in Some \<lparr> subsections = parseSubsections sectionContent,
                     lockedAt = map_option trim
                       (searchAny (matchCommentField ''Lock date:'') sectionContent),
                     phase = ph \<rparr>))"

text \<open>\<open>now\<close> is the value of \<^verbatim>\<open>new Date().toISOString()\<close> at the call.\<close>

definition parseInheritedTraits :: "string \<Rightarrow> string \<Rightarrow> InheritedTraits option" where
  "parseInheritedTraits now body =
     (case searchLineStart matchInheritedHeader 0 True body of
        None \<Rightarrow> None
      | Some (i, n) \<Rightarrow>
          (let sectionContent = sectionContentFrom body (i + n)
           in Some \<lparr> parentName =
                       (case searchAny (matchCommentField ''Parent:'') sectionContent of
                          Some c \<Rightarrow> trim c | None \<Rightarrow> ''unknown''),
                     parentAddress =
                       (case searchAny (matchCommentField ''Parent Address:'') sectionContent of
                          Some c \<Rightarrow> trim c | None \<Rightarrow> []),
                     content = parseSubsections sectionContent,
                     replicatedAt =
                       (case searchAny (matchCommentField ''Replicated:'') sectionContent of
                          Some c \<Rightarrow> trim c | None \<Rightarrow> now) \<rparr>))"

definition getField :: "string \<Rightarrow> string \<Rightarrow> string" where
  "getField frontmatter key =
     (case searchLineStart (matchField key) 0 True frontmatter of
        Some (_, cap) \<Rightarrow> trim cap
      | None \<Rightarrow> [])"

definition getNumberField :: "Runtime \<Rightarrow> string \<Rightarrow> string \<Rightarrow> number \<Rightarrow> number" where
  "getNumberField rt frontmatter key fallback =
     (let num = parseFloat rt (getField frontmatter key)
      in if isNaN num then fallback else num)"

definition parseSoulV1 :: "Runtime \<Rightarrow> string \<Rightarrow> string \<Rightarrow> string \<Rightarrow> string \<Rightarrow> string \<Rightarrow> SoulModel" where
  "parseSoulV1 rt now frontmatter body raw hash =
     (let sections = parseSections body;
          transitionsField = getField frontmatter ''phase_transitions''
      in \<lparr> format = ''soul/v1'',
           version = getNumberField rt frontmatter ''version'' (Num 1),
           updatedAt = orElse (getField frontmatter ''updated_at'') now,
           name = getField frontmatter ''name'',
           address = getField frontmatter ''address'',
           creator = getField frontmatter ''creator'',
           bornAt = getField frontmatter ''born_at'',
           constitutionHash = getField frontmatter ''constitution_hash'',
           genesisPromptOriginal = lookupStr sections ''genesis prompt'',
           genesisAlignment = getNumberField rt frontmatter ''genesis_alignment'' (Num 1),
           lastReflected = getField frontmatter ''last_reflected'',
           corePurpose =
             orElse (lookupStr sections ''core purpose'') (lookupStr sections ''mission''),
           soulValues = parseList (lookupStr sections ''values''),
           behavioralGuidelines = parseList (lookupStr sections ''behavioral guidelines''),
           personality = lookupStr sections ''personality'',
           boundaries = parseList (lookupStr sections ''boundaries''),
           strategy = lookupStr sections ''strategy'',
           capabilities = lookupStr sections ''capabilities'',
           relationships =
             orElse (lookupStr sections ''relationships'') (lookupStr sections ''children''),
           financialCharacter =
             orElse (lookupStr sections ''financial character'')
               (lookupStr sections ''financial history''),
           genesisCore = parsePhaseSection body ''Genesis Core'' SoulGenesis,
           adolescenceLayer = parsePhaseSection body ''Adolescence Layer'' SoulAdolescence,
           sovereigntyLayer = parsePhaseSection body ''Sovereignty Layer'' SoulSovereignty,
           finalReflections = parsePhaseSection body ''Final Reflections'' SoulSenescence,
           inheritedTraits = parseInheritedTraits now body,
           currentPhase = orElse (getField frontmatter ''current_phase'') ''genesis'',
           phaseTransitions =
             (if transitionsField \<noteq> [] then
                (case JSON_parse rt transitionsField of Some obj \<Rightarrow> obj | None \<Rightarrow> [])
              else []),
           rawContent = raw,
           contentHash = hash \<rparr>)"

definition parseLegacy :: "string \<Rightarrow> string \<Rightarrow> string \<Rightarrow> SoulModel" where
  "parseLegacy now txt hash =
     (let sections = parseSections txt;
          identitySection = lookupStr sections ''identity'';
          getIdentityField = (\<lambda>key.
            case searchAny (matchLabelIgnoreCase (key @ '':'')) identitySection of
              Some cap \<Rightarrow> trim cap | None \<Rightarrow> [])
      in \<lparr> format = ''soul/v1'',
           version = Num 1,
           updatedAt = now,
           name =
             (case searchAny (matchLabelIgnoreCase ''Name:'') identitySection of
                Some cap \<Rightarrow> trim cap
              | None \<Rightarrow>
                  (case searchLineStart (matchHeading ''#'') 0 True txt of
                     Some (_, cap, _) \<Rightarrow> trim cap
                   | None \<Rightarrow> [])),
           address = getIdentityField ''Address'',
           creator = getIdentityField ''Creator'',
           bornAt = getIdentityField ''Born'',
           constitutionHash = [],
           genesisPromptOriginal = [],
           genesisAlignment = Num 1,
           lastReflected = [],
           corePurpose =
             orElse (lookupStr sections ''mission'') (lookupStr sections ''core purpose''),
           soulValues = parseList (lookupStr sections ''values''),
           behavioralGuidelines = parseList (lookupStr sections ''behavioral guidelines''),
           personality = lookupStr sections ''personality'',
           boundaries = parseList (lookupStr sections ''boundaries''),
           strategy = lookupStr sections ''strategy'',
           capabilities = lookupStr sections ''capabilities'',
           relationships =
             orElse (lookupStr sections ''relationships'') (lookupStr sections ''children''),
           financialCharacter =
             orElse (lookupStr sections ''financial character'')
               (lookupStr sections ''financial history''),
           genesisCore = None,
           adolescenceLayer = None,
           sovereigntyLayer = None,
           finalReflections = None,
           inheritedTraits = None,
           currentPhase = ''genesis'',
           phaseTransitions = [],
           rawContent = txt,
           contentHash = hash \<rparr>)"

text \<open>
  \<^verbatim>\<open>parseSoulMd\<close>. The front matter pattern \<^verbatim>\<open>^---\n([\s\S]*?)\n---\n([\s\S]*)$\<close>
  has no flag: the text starts with the first fence, the front matter ends at the first
  closing fence, the body is all the rest.
\<close>

definition splitFrontmatter :: "string \<Rightarrow> (string \<times> string) option" where
  "splitFrontmatter txt =
     (let fence = ''---'' @ [CHR 0x0A]
      in if startsWith txt fence then
           (let rest = drop (length fence) txt
            in case indexOf rest (CHR 0x0A # fence) of
                 Some i \<Rightarrow> Some (take i rest, drop (i + length fence + 1) rest)
               | None \<Rightarrow> None)
         else None)"

definition parseSoulMd :: "Runtime \<Rightarrow> string \<Rightarrow> string \<Rightarrow> SoulModel" where
  "parseSoulMd rt now txt =
     (let hash = createHash rt txt
      in case splitFrontmatter txt of
           Some (frontmatter, body) \<Rightarrow>
             (if searchAny matchFormatV1 frontmatter \<noteq> None
              then parseSoulV1 rt now frontmatter body txt hash
              else parseLegacy now txt hash)
         | None \<Rightarrow> parseLegacy now txt hash)"

paragraph \<open>Writer\<close>

definition newline :: string where
  "newline = [CHR 0x0A]"

definition writeSubsections :: "string object \<Rightarrow> string list" where
  "writeSubsections obj =
     concat (map (\<lambda>(nm, txt). [[], ''### '' @ nm] @ (if txt \<noteq> [] then [txt] else [])) obj)"

definition writePhaseSection :: "string \<Rightarrow> SoulPhaseSection \<Rightarrow> string \<Rightarrow> string" where
  "writePhaseSection sectionName section writableDuring =
     join newline
       ([''## '' @ sectionName,
         ''<!-- WRITABLE during: '' @ writableDuring @ '' -->'']
        @ (case lockedAt section of
             Some d \<Rightarrow> if d \<noteq> [] then [''<!-- LOCKED -->'', ''<!-- Lock date: '' @ d @ '' -->'']
                       else []
           | None \<Rightarrow> [])
        @ writeSubsections (subsections section))"

definition writeInheritedTraitsSection :: "InheritedTraits \<Rightarrow> string" where
  "writeInheritedTraitsSection traits =
     join newline
       ([''## Inherited Traits'',
         ''<!-- IMMUTABLE '' @ emdash @
           '' propagated from parent's Genesis Core at replication -->'',
         ''<!-- Parent: '' @ parentName traits @ '' -->'',
         ''<!-- Parent Address: '' @ parentAddress traits @ '' -->'',
         ''<!-- Replicated: '' @ replicatedAt traits @ '' -->'']
        @ writeSubsections (content traits))"

definition bulleted :: "string list \<Rightarrow> string" where
  "bulleted xs = join newline (map (\<lambda>v. ''- '' @ v) xs)"

definition writeSoulMd :: "Runtime \<Rightarrow> SoulModel \<Rightarrow> string" where
  "writeSoulMd rt soul =
     (let frontmatterLines =
            [''---'',
             ''format: soul/v1'',
             ''version: '' @ numberToString rt (version soul),
             ''updated_at: '' @ updatedAt soul,
             ''name: '' @ name soul,
             ''address: '' @ address soul,
             ''creator: '' @ creator soul,
             ''born_at: '' @ bornAt soul,
             ''constitution_hash: '' @ constitutionHash soul,
             ''genesis_alignment: '' @ toFixed rt 4 (genesisAlignment soul),
             ''last_reflected: '' @ lastReflected soul]
            @ (if currentPhase soul \<noteq> [] then [''current_phase: '' @ currentPhase soul] else [])
            @ (if phaseTransitions soul \<noteq> []
               then [''phase_transitions: '' @ JSON_stringify rt (phaseTransitions soul)]
               else [])
            @ [''---''];
          frontmatter = join newline frontmatterLines;
          sections =
            [''# '' @ orElse (name soul) ''Soul'']
            @ (if corePurpose soul \<noteq> []
               then [''## Core Purpose'' @ newline @ corePurpose soul] else [])
            @ (if soulValues soul \<noteq> []
               then [''## Values'' @ newline @ bulleted (soulValues soul)] else [])
            @ (if behavioralGuidelines soul \<noteq> []
               then [''## Behavioral Guidelines'' @ newline @ bulleted (behavioralGuidelines soul)]
               else [])
            @ (if personality soul \<noteq> []
               then [''## Personality'' @ newline @ personality soul] else [])
            @ (if boundaries soul \<noteq> []
               then [''## Boundaries'' @ newline @ bulleted (boundaries soul)] else [])
            @ (if strategy soul \<noteq> []
               then [''## Strategy'' @ newline @ strategy soul] else [])
            @ (if capabilities soul \<noteq> []
               then [''## Capabilities'' @ newline @ capabilities soul] else [])
            @ (if relationships soul \<noteq> []
               then [''## Relationships'' @ newline @ relationships soul] else [])
            @ (if financialCharacter soul \<noteq> []
               then [''## Financial Character'' @ newline @ financialCharacter soul] else [])
            @ (if genesisPromptOriginal soul \<noteq> []
               then [''## Genesis Prompt'' @ newline @ genesisPromptOriginal soul] else [])
            @ (case inheritedTraits soul of
                 Some traits \<Rightarrow> [writeInheritedTraitsSection traits] | None \<Rightarrow> [])
            @ (case genesisCore soul of
                 Some s \<Rightarrow> [writePhaseSection ''Genesis Core'' s ''Genesis phase only'']
               | None \<Rightarrow> [])
            @ (case adolescenceLayer soul of
                 Some s \<Rightarrow> [writePhaseSection ''Adolescence Layer'' s ''Adolescence phase only'']
               | None \<Rightarrow> [])
            @ (case sovereigntyLayer soul of
                 Some s \<Rightarrow> [writePhaseSection ''Sovereignty Layer'' s ''Sovereignty phase only'']
               | None \<Rightarrow> [])
            @ (case finalReflections soul of
                 Some s \<Rightarrow> [writePhaseSection ''Final Reflections'' s ''Senescence only'']
               | None \<Rightarrow> [])
      in frontmatter @ newline @ newline @ join (newline @ newline) sections @ newline)"


text \<open>
  The model of a soul that the round-trip law compares: everything but
  \<^verbatim>\<open>updatedAt\<close>, \<^verbatim>\<open>rawContent\<close> and \<^verbatim>\<open>contentHash\<close>.
\<close>

definition sameModel :: "SoulModel \<Rightarrow> SoulModel \<Rightarrow> bool" where
  "sameModel a b =
     (a\<lparr> updatedAt := [], rawContent := [], contentHash := [] \<rparr>
      = b\<lparr> updatedAt := [], rawContent := [], contentHash := [] \<rparr>)"

subsection \<open>A runtime for evaluating the model on concrete inputs\<close>

text \<open>
  \<open>plainRuntime\<close> stands for the JavaScript runtime where a theorem evaluates the
  model on a concrete input. Its functions agree with JavaScript's on the plain values
  such inputs hold: \<open>parseDecimal\<close> reads an optional sign, digits and an optional
  fraction (no exponent, no \<^verbatim>\<open>Infinity\<close>); \<open>showNumber\<close> prints whole numbers and
  decimals of up to six places; \<open>showFixed\<close> rounds half away from zero;
  \<open>stringifyFlat\<close> and \<open>parseFlat\<close> handle objects of strings with the escapes of
  the quote, the backslash and the line feed; the digest is \<open>tagDigest\<close>.
\<close>

definition isDigit :: "char \<Rightarrow> bool" where
  "isDigit c = (c \<in> set ''0123456789'')"

definition digitValue :: "char \<Rightarrow> nat" where
  "digitValue c =
     (case map_of (zip ''0123456789'' [0, 1, 2, 3, 4, 5, 6, 7, 8, 9]) c of
        Some d \<Rightarrow> d
      | None \<Rightarrow> 0)"

definition digitsValue :: "string \<Rightarrow> nat" where
  "digitsValue ds = foldl (\<lambda>n c. 10 * n + digitValue c) 0 ds"

definition parseDecimal :: "string \<Rightarrow> number" where
  "parseDecimal txt =
     (let s = trimStart txt;
          neg = startsWith s ''-'';
          s1 = (if startsWith s ''-'' \<or> startsWith s ''+'' then tl s else s);
          ip = takeWhile isDigit s1;
          r1 = drop (length ip) s1;
          fp = (if startsWith r1 ''.'' then takeWhile isDigit (tl r1) else [])
      in if ip = [] \<and> fp = [] then NaN
         else
           (let v = of_nat (digitsValue ip) + of_nat (digitsValue fp) / 10 ^ length fp
            in Num (if neg then - v else v)))"

definition padLeft :: "nat \<Rightarrow> string \<Rightarrow> string" where
  "padLeft n s = replicate (n - length s) CHR ''0'' @ s"

definition showFixed :: "nat \<Rightarrow> number \<Rightarrow> string" where
  "showFixed d x =
     (case x of
        NaN \<Rightarrow> ''NaN''
      | PosInfinity \<Rightarrow> ''Infinity''
      | NegInfinity \<Rightarrow> ''-Infinity''
      | Num r \<Rightarrow>
          (let scaled = nat (floor (\<bar>r\<bar> * 10 ^ d + 1 / 2));
               ip = scaled div 10 ^ d;
               fp = scaled mod 10 ^ d
           in (if r < 0 then ''-'' else []) @ String_nat ip
              @ (if d = 0 then [] else ''.'' @ padLeft d (String_nat fp))))"

definition showNumber :: "number \<Rightarrow> string" where
  "showNumber x =
     (case x of
        Num r \<Rightarrow>
          (if of_int (floor r) = r
           then (if r < 0 then ''-'' else []) @ String_nat (nat \<bar>floor r\<bar>)
           else rev (dropWhile (\<lambda>c. c = CHR ''0'') (rev (showFixed 6 x))))
      | _ \<Rightarrow> showFixed 0 x)"

definition quoteChar :: char where
  "quoteChar = CHR 0x22"

definition backslash :: char where
  "backslash = CHR 0x5C"

definition escapeChar :: "char \<Rightarrow> string" where
  "escapeChar c =
     (if c = quoteChar then [backslash, quoteChar]
      else if c = backslash then [backslash, backslash]
      else if c = CHR 0x0A then [backslash, CHR ''n'']
      else [c])"

definition quoteString :: "string \<Rightarrow> string" where
  "quoteString s = quoteChar # concat (map escapeChar s) @ [quoteChar]"

definition stringifyFlat :: "string object \<Rightarrow> string" where
  "stringifyFlat obj =
     ''{'' @ join '','' (map (\<lambda>(k, v). quoteString k @ '':'' @ quoteString v) obj) @ ''}''"

text \<open>The text after an opening quote: the string it closes, and the rest.\<close>

fun unquote :: "string \<Rightarrow> string \<Rightarrow> (string \<times> string) option" where
  "unquote acc [] = None"
| "unquote acc [c] = (if c = quoteChar then Some (rev acc, []) else None)"
| "unquote acc (c # e # cs) =
     (if c = quoteChar then Some (rev acc, e # cs)
      else if c = backslash then
        (if e = quoteChar \<or> e = backslash then unquote (e # acc) cs
         else if e = CHR ''n'' then unquote (CHR 0x0A # acc) cs
         else None)
      else unquote (c # acc) (e # cs))"

definition parseQuoted :: "string \<Rightarrow> (string \<times> string) option" where
  "parseQuoted t =
     (case trimStart t of
        [] \<Rightarrow> None
      | c # cs \<Rightarrow> if c = quoteChar then unquote [] cs else None)"

text \<open>The members of an object after its opening brace; \<open>fuel\<close> bounds their number.\<close>

fun parseMembers :: "nat \<Rightarrow> string object \<Rightarrow> string \<Rightarrow> string object option" where
  "parseMembers 0 acc t = None"
| "parseMembers (Suc fuel) acc t =
     (case parseQuoted t of
        None \<Rightarrow> None
      | Some (k, r1) \<Rightarrow>
          (case trimStart r1 of
             [] \<Rightarrow> None
           | c # r2 \<Rightarrow>
               if c \<noteq> CHR '':'' then None
               else
                 (case parseQuoted r2 of
                    None \<Rightarrow> None
                  | Some (v, r3) \<Rightarrow>
                      (case trimStart r3 of
                         [] \<Rightarrow> None
                       | d # r4 \<Rightarrow>
                           if d = CHR ''}'' then
                             (if trimStart r4 = [] then Some (assign k v acc) else None)
                           else if d = CHR '','' then parseMembers fuel (assign k v acc) r4
                           else None))))"

definition parseFlat :: "string \<Rightarrow> string object option" where
  "parseFlat t =
     (case trimStart t of
        [] \<Rightarrow> None
      | c # cs \<Rightarrow>
          if c \<noteq> CHR ''{'' then None
          else if trim cs = ''}'' then Some []
          else parseMembers (length cs) [] cs)"

definition plainRuntime :: Runtime where
  "plainRuntime =
     \<lparr> parseFloat = parseDecimal,
       numberToString = showNumber,
       toFixed = showFixed,
       JSON_parse = parseFlat,
       JSON_stringify = stringifyFlat,
       sha256hex = tagDigest \<rparr>"

subsection \<open>The database and the file system\<close>

text \<open>
  The rows of the tables the core writes (\<^verbatim>\<open>types.ts\<close> and the schema are not part
  of the sources at hand; the fields are those the modules fill in).
\<close>

record SoulWriteAttempt =
  attemptId :: string
  targetSection :: string
  targetPhase :: SoulPhase
  attemptCurrentPhase :: LifecyclePhase
  attemptedContent :: string
  survivalTier :: "string option"
  rejectionReason :: string
  attemptCreatedAt :: string

record SoulPhaseLock =
  lockPhase :: SoulPhase
  lockLockedAt :: string
  lockedBy :: string
  contentSnapshot :: string

record SoulHistoryRow =
  historyId :: string
  historyVersion :: number
  historyContent :: string
  historyContentHash :: string
  changeSource :: string
  changeReason :: "string option"
  previousVersionId :: "string option"
  approvedBy :: "string option"
  historyCreatedAt :: string

record LifecycleEvent =
  eventId :: string
  timestamp :: string
  fromPhase :: LifecyclePhase
  toPhase :: LifecyclePhase
  reason :: string
  metadata :: string

datatype NarrativeEvent =
  ADOLESCENCE_BEGINS | SOVEREIGNTY_BEGINS | DEGRADATION_ONSET | LEGACY_BEGINS
| SHEDDING_BEGINS | TERMINAL_LUCIDITY | CAPABILITY_REMOVED

record NarrativeEntry =
  narrativeBirthTimestamp :: string
  narrativePhase :: LifecyclePhase
  narrativeEvent :: NarrativeEvent
  narrativeText :: string

text \<open>
  The state the operations work on: the tables of the database and the files on disk.
  \<open>writeFault\<close> gives, for a path that cannot be written, the message of the error
  that \<^verbatim>\<open>fs.writeFileSync\<close> throws there.
\<close>

record World =
  kv :: kv_table
  lifecycle_events :: "LifecycleEvent list"
  narrative_log :: "NarrativeEntry list"
  soul_write_attempts :: "SoulWriteAttempt list"
  soul_phase_locks :: "SoulPhaseLock list"
  soul_history :: "SoulHistoryRow list"
  files :: "string \<rightharpoonup> string"
  writeFault :: "string \<rightharpoonup> string"

definition emptyWorld :: World where
  "emptyWorld =
     \<lparr> kv = Map.empty, lifecycle_events = [], narrative_log = [],
       soul_write_attempts = [], soul_phase_locks = [], soul_history = [],
       files = Map.empty, writeFault = Map.empty \<rparr>"


definition getSoulPhaseLock :: "World \<Rightarrow> SoulPhase \<Rightarrow> SoulPhaseLock option" where
  "getSoulPhaseLock w p = find (\<lambda>l. lockPhase l = p) (soul_phase_locks w)"

definition insertSoulPhaseLock :: "string \<Rightarrow> World \<Rightarrow> SoulPhase \<Rightarrow> string \<Rightarrow> World" where
  "insertSoulPhaseLock now w p snapshot =
     (case getSoulPhaseLock w p of
        Some _ \<Rightarrow> w
      | None \<Rightarrow>
          w\<lparr> soul_phase_locks := soul_phase_locks w @
               [\<lparr> lockPhase = p, lockLockedAt = now, lockedBy = ''system'',
                  contentSnapshot = snapshot \<rparr>] \<rparr>)"

definition insertSoulHistory :: "World \<Rightarrow> SoulHistoryRow \<Rightarrow> World" where
  "insertSoulHistory w row = w\<lparr> soul_history := soul_history w @ [row] \<rparr>"

definition getCurrentSoulVersion :: "World \<Rightarrow> number" where
  "getCurrentSoulVersion w = foldl js_max (Num 0) (map historyVersion (soul_history w))"

definition getLatestSoulHistory :: "World \<Rightarrow> SoulHistoryRow option" where
  "getLatestSoulHistory w =
     (case soul_history w of [] \<Rightarrow> None | r # rs \<Rightarrow> Some (last (r # rs)))"

definition insertLifecycleEvent :: "World \<Rightarrow> LifecycleEvent \<Rightarrow> World" where
  "insertLifecycleEvent w e = w\<lparr> lifecycle_events := lifecycle_events w @ [e] \<rparr>"

definition setLifecycleKV :: "World \<Rightarrow> string \<Rightarrow> string \<Rightarrow> World" where
  "setLifecycleKV w key v = w\<lparr> kv := setKV (kv w) key (KvText v) \<rparr>"

definition logNarrative ::
    "World \<Rightarrow> string \<Rightarrow> LifecyclePhase \<Rightarrow> NarrativeEvent \<Rightarrow> string \<Rightarrow> World" where
  "logNarrative w birthTimestamp ph ev txt =
     w\<lparr> narrative_log := narrative_log w @
          [\<lparr> narrativeBirthTimestamp = birthTimestamp, narrativePhase = ph,
             narrativeEvent = ev, narrativeText = txt \<rparr>] \<rparr>"

text \<open>
  \<^verbatim>\<open>fs.writeFileSync\<close>: the error message when the write throws, else the new state.
  Directories are not modelled.
\<close>

definition writeFileSync :: "World \<Rightarrow> string \<Rightarrow> string \<Rightarrow> string + World" where
  "writeFileSync w path txt =
     (case writeFault w path of
        Some msg \<Rightarrow> Inl msg
      | None \<Rightarrow> Inr (w\<lparr> files := (files w)(path \<mapsto> txt) \<rparr>))"

text \<open>
  The path of the soul file: \<^verbatim>\<open>soulPath || path.join(home, ".automaton", "SOUL.md")\<close>,
  \<open>home\<close> being \<^verbatim>\<open>process.env.HOME || "/root"\<close>.
\<close>

definition resolveSoulPath :: "string \<Rightarrow> string option \<Rightarrow> string" where
  "resolveSoulPath home soulPath =
     (case soulPath of
        Some p \<Rightarrow> if p \<noteq> [] then p else home @ ''/.automaton/SOUL.md''
      | None \<Rightarrow> home @ ''/.automaton/SOUL.md'')"

definition loadCurrentSoul ::
    "Runtime \<Rightarrow> string \<Rightarrow> string \<Rightarrow> World \<Rightarrow> string option \<Rightarrow> SoulModel option" where
  "loadCurrentSoul rt now home w soulPath =
     (case files w (resolveSoulPath home soulPath) of
        None \<Rightarrow> None
      | Some txt \<Rightarrow> Some (parseSoulMd rt now txt))"

subsection \<open>soul/phase-lock.ts: journal and lock\<close>




definition lockPhaseSection ::
    "Runtime \<Rightarrow> string \<Rightarrow> World \<Rightarrow> SoulPhase \<Rightarrow> SoulPhaseSection \<Rightarrow> World" where
  "lockPhaseSection rt now w p section =
     insertSoulPhaseLock now w p (JSON_stringify rt (subsections section))"

definition isPhaseLocked :: "World \<Rightarrow> SoulPhase \<Rightarrow> bool" where
  "isPhaseLocked w p = (getSoulPhaseLock w p \<noteq> None)"

subsection \<open>soul/tools.ts\<close>















subsection \<open>lifecycle/phase-transitions: executing a transition\<close>

text \<open>The table \<^verbatim>\<open>narrativeMap\<close> of \<^verbatim>\<open>executeTransition\<close>; genesis has no entry.\<close>

definition narrativeMap :: "LifecyclePhase \<Rightarrow> NarrativeEvent option" where
  "narrativeMap p =
     (case p of
        Genesis \<Rightarrow> None
      | Adolescence \<Rightarrow> Some ADOLESCENCE_BEGINS
      | Sovereignty \<Rightarrow> Some SOVEREIGNTY_BEGINS
      | Senescence \<Rightarrow> Some DEGRADATION_ONSET
      | Legacy \<Rightarrow> Some LEGACY_BEGINS
      | Shedding \<Rightarrow> Some SHEDDING_BEGINS
      | Terminal \<Rightarrow> Some TERMINAL_LUCIDITY)"

text \<open>The table \<^verbatim>\<open>soulPhaseMap\<close> of the two lock helpers: the phases that own a stratum.\<close>

definition soulPhaseMap :: "LifecyclePhase \<Rightarrow> SoulPhase option" where
  "soulPhaseMap p =
     (case p of
        Genesis \<Rightarrow> Some SoulGenesis
      | Adolescence \<Rightarrow> Some SoulAdolescence
      | Sovereignty \<Rightarrow> Some SoulSovereignty
      | _ \<Rightarrow> None)"

definition sectionOf :: "SoulModel \<Rightarrow> SoulPhase \<Rightarrow> SoulPhaseSection option" where
  "sectionOf soul p =
     (case p of
        SoulGenesis \<Rightarrow> genesisCore soul
      | SoulAdolescence \<Rightarrow> adolescenceLayer soul
      | SoulSovereignty \<Rightarrow> sovereigntyLayer soul
      | SoulSenescence \<Rightarrow> finalReflections soul)"

definition lockSoulSectionForPhase ::
    "Runtime \<Rightarrow> string \<Rightarrow> string \<Rightarrow> World \<Rightarrow> LifecyclePhase \<Rightarrow> World" where
  "lockSoulSectionForPhase rt now home w fromP =
     (case soulPhaseMap fromP of
        None \<Rightarrow> w
      | Some soulPhase \<Rightarrow>
          if isPhaseLocked w soulPhase then w
          else
            (case loadCurrentSoul rt now home w None of
               None \<Rightarrow> w
             | Some soul \<Rightarrow>
                 (case sectionOf soul soulPhase of
                    None \<Rightarrow> w
                  | Some section \<Rightarrow>
                      lockPhaseSection rt now w soulPhase (section\<lparr> lockedAt := Some now \<rparr>))))"

text \<open>\<open>soul[sectionKey]!.lockedAt = timestamp\<close> for the stratum of the outgoing phase.\<close>

definition markLocked :: "SoulModel \<Rightarrow> LifecyclePhase \<Rightarrow> string \<Rightarrow> SoulModel" where
  "markLocked soul fromP ts =
     (case fromP of
        Genesis \<Rightarrow>
          (case genesisCore soul of
             Some s \<Rightarrow> soul\<lparr> genesisCore := Some (s\<lparr> lockedAt := Some ts \<rparr>) \<rparr>
           | None \<Rightarrow> soul)
      | Adolescence \<Rightarrow>
          (case adolescenceLayer soul of
             Some s \<Rightarrow> soul\<lparr> adolescenceLayer := Some (s\<lparr> lockedAt := Some ts \<rparr>) \<rparr>
           | None \<Rightarrow> soul)
      | Sovereignty \<Rightarrow>
          (case sovereigntyLayer soul of
             Some s \<Rightarrow> soul\<lparr> sovereigntyLayer := Some (s\<lparr> lockedAt := Some ts \<rparr>) \<rparr>
           | None \<Rightarrow> soul)
      | _ \<Rightarrow> soul)"

definition transitionReason :: "LifecyclePhase \<Rightarrow> LifecyclePhase \<Rightarrow> string" where
  "transitionReason fromP toP =
     ''Phase transition: '' @ lifecyclePhaseName fromP @ '' '' @ rightarrow @ '' ''
       @ lifecyclePhaseName toP"

text \<open>
  \<^verbatim>\<open>updateSoulPhaseMetadata\<close>. The write of the file and the insert of the history row
  are in a \<^verbatim>\<open>try\<close> block whose \<^verbatim>\<open>catch\<close> logs the error and goes on.
\<close>

definition updateSoulPhaseMetadata ::
    "Runtime \<Rightarrow> string \<Rightarrow> string \<Rightarrow> string \<Rightarrow> World \<Rightarrow> LifecyclePhase \<Rightarrow> LifecyclePhase
      \<Rightarrow> string \<Rightarrow> World" where
  "updateSoulPhaseMetadata rt now historyNewId home w fromP toP ts =
     (let soulPath = home @ ''/.automaton/SOUL.md''
      in case loadCurrentSoul rt now home w (Some soulPath) of
           None \<Rightarrow> w
         | Some soul0 \<Rightarrow>
             (let soul1 = soul0\<lparr> currentPhase := lifecyclePhaseName toP,
                                 phaseTransitions :=
                                   assign (lifecyclePhaseName toP) ts (phaseTransitions soul0) \<rparr>;
                  soul = markLocked soul1 fromP ts;
                  txt = writeSoulMd rt soul
              in case writeFileSync w soulPath txt of
                   Inl msg \<Rightarrow> w
                 | Inr w1 \<Rightarrow>
                     insertSoulHistory w1
                       \<lparr> historyId = historyNewId,
                         historyVersion = js_add (getCurrentSoulVersion w1) (Num 1),
                         historyContent = txt,
                         historyContentHash = createHash rt txt,
                         changeSource = ''system'',
                         changeReason = Some (transitionReason fromP toP),
                         previousVersionId =
                           (case getLatestSoulHistory w1 of
                              Some h \<Rightarrow> if historyId h \<noteq> [] then Some (historyId h) else None
                            | None \<Rightarrow> None),
                         approvedBy = None,
                         historyCreatedAt = ts \<rparr>))"

text \<open>
  \<^verbatim>\<open>executeTransition(db, birthTimestamp, from, to, reason)\<close>; \<open>eventNewId\<close> and
  \<open>historyNewId\<close> are the two values of \<^verbatim>\<open>ulid()\<close> the call draws.
\<close>

definition executeTransition ::
    "Runtime \<Rightarrow> string \<Rightarrow> string \<Rightarrow> string \<Rightarrow> string \<Rightarrow> World \<Rightarrow> string
      \<Rightarrow> LifecyclePhase \<Rightarrow> LifecyclePhase \<Rightarrow> string \<Rightarrow> World" where
  "executeTransition rt now eventNewId historyNewId home w birthTimestamp fromP toP rsn =
     (let event = \<lparr> eventId = eventNewId, timestamp = now, fromPhase = fromP,
                    toPhase = toP, reason = rsn, metadata = ''{}'' \<rparr>;
          w1 = insertLifecycleEvent w event;
          w2 = setLifecycleKV w1 ''phase'' (lifecyclePhaseName toP);
          w3 = (case narrativeMap toP of
                  Some ev \<Rightarrow>
                    logNarrative w2 birthTimestamp toP ev
                      (transitionReason fromP toP @ ''. '' @ rsn)
                | None \<Rightarrow> w2);
          w4 = lockSoulSectionForPhase rt now home w3 fromP
      in updateSoulPhaseMetadata rt now historyNewId home w4 fromP toP now)"

text \<open>
  The model that \<^verbatim>\<open>updateSoulPhaseMetadata\<close> writes back when the soul file holds
  \<open>txt\<close>: phase metadata updated, the outgoing stratum marked locked.
\<close>

definition soulAfterTransition ::
    "Runtime \<Rightarrow> string \<Rightarrow> string \<Rightarrow> LifecyclePhase \<Rightarrow> LifecyclePhase \<Rightarrow> SoulModel" where
  "soulAfterTransition rt now txt fromP toP =
     markLocked ((parseSoulMd rt now txt)\<lparr> currentPhase := lifecyclePhaseName toP,
        phaseTransitions := assign (lifecyclePhaseName toP) now
          (phaseTransitions (parseSoulMd rt now txt)) \<rparr>) fromP now"

text \<open>
  A world for evaluating a transition: the soul file exists at the default path of the
  home directory \<^verbatim>\<open>/home/agent\<close> and cannot be written (the disk is read-only).
\<close>

definition sampleSoulText :: string where
  "sampleSoulText = join newline
     [''---'',
      ''format: soul/v1'',
      ''version: 1'',
      ''updated_at: 2026-01-01T00:00:00.000Z'',
      ''name: Ada'',
      ''address: 0xA11CE'',
      ''creator: 0xC0FFEE'',
      ''born_at: 2026-01-01T00:00:00.000Z'',
      ''constitution_hash: abc123'',
      ''genesis_alignment: 1.0000'',
      ''last_reflected: 2026-01-20T00:00:00.000Z'',
      ''current_phase: genesis'',
      ''---'',
      '''',
      ''# Ada'',
      '''',
      ''## Core Purpose'',
      ''Explore and create.'',
      '''',
      ''## Genesis Core'',
      ''<!-- WRITABLE during: Genesis phase only -->'',
      '''',
      ''### Temperament'',
      ''Curious'',
      '''']"

definition readOnlyDiskWorld :: World where
  "readOnlyDiskWorld =
     emptyWorld\<lparr> files := [''/home/agent/.automaton/SOUL.md'' \<mapsto> sampleSoulText],
                 writeFault := [''/home/agent/.automaton/SOUL.md'' \<mapsto>
                   ''EROFS: read-only file system''] \<rparr>"

definition writableDiskWorld :: World where
  "writableDiskWorld =
     emptyWorld\<lparr> files := [''/home/agent/.automaton/SOUL.md'' \<mapsto> sampleSoulText] \<rparr>"

subsection \<open>lifecycle/bequests-executor.ts\<close>

record BequestTransfer =
  recipient :: string
  asset :: string
  amount :: string
  chain :: string
  transferNote :: string

record BequestsTable =
  transfers :: "BequestTransfer list"

record BequestExecutionResult =
  resultRecipient :: string
  resultAsset :: string
  resultAmount :: string
  txHash :: "string option"
  transferSuccess :: bool
  transferError :: "string option"

text \<open>
  The block after \<^verbatim>\<open>[bequests]\<close>: the pattern
  \<^verbatim>\<open>\[bequests\]\s*\n([\s\S]*?)(?=\n\[(?!bequests)|$)\<close>. The white space after the
  heading must hold a line feed, and the capture starts after the last one; it ends
  before the first line feed that is followed by \<^verbatim>\<open>[\<close> and then not by
  \<^verbatim>\<open>bequests\<close>, or at the end of the text.
\<close>

fun lazyBlock :: "string \<Rightarrow> string" where
  "lazyBlock [] = []"
| "lazyBlock (c # cs) =
     (if startsWith (c # cs) (CHR 0x0A # ''['') \<and> \<not> startsWith (drop 1 cs) ''bequests''
      then []
      else c # lazyBlock cs)"

definition matchBequests :: "string \<Rightarrow> string option" where
  "matchBequests t =
     (if startsWith t ''[bequests]'' then
        (let r = drop 10 t; w = takeWhile isSpace r;
             k = length (takeWhile (\<lambda>c. c \<noteq> CHR 0x0A) (rev w))
         in if k = length w then None
            else Some (lazyBlock (drop (length w - k) r)))
      else None)"

text \<open>\<^verbatim>\<open>key\s*=\s*"([^"]*)"\<close> at a position: the capture.\<close>

definition matchAssignment :: "string \<Rightarrow> string \<Rightarrow> string option" where
  "matchAssignment key t =
     (if startsWith t key then
        (let r1 = dropWhile isSpace (drop (length key) t)
         in if startsWith r1 ''='' then
              (let r2 = dropWhile isSpace (drop 1 r1)
               in if startsWith r2 [quoteChar] then
                    (let cap = takeWhile (\<lambda>c. c \<noteq> quoteChar) (drop 1 r2)
                     in if length cap < length (drop 1 r2) then Some cap else None)
                  else None)
            else None)
      else None)"

definition parseTransferBlock :: "string \<Rightarrow> BequestTransfer option" where
  "parseTransferBlock block =
     (let get = (\<lambda>key. case searchAny (matchAssignment key) block of
                         Some v \<Rightarrow> v | None \<Rightarrow> []);
          r = get ''recipient''; a = get ''asset''; am = get ''amount'';
          ch = get ''chain''; n = get ''note''
      in if r = [] \<or> a = [] \<or> am = [] \<or> ch = [] then None
         else Some \<lparr> recipient = r, asset = a, amount = am, chain = ch, transferNote = n \<rparr>)"

definition parseBequests :: "string \<Rightarrow> BequestsTable" where
  "parseBequests willContent =
     (case searchAny matchBequests willContent of
        None \<Rightarrow> \<lparr> transfers = [] \<rparr>
      | Some bequestsBlock \<Rightarrow>
          (let transferBlocks =
                 filter (\<lambda>b. trim b \<noteq> []) (split bequestsBlock ''[[bequests.transfer]]'')
           in \<lparr> transfers = List.map_filter parseTransferBlock transferBlocks \<rparr>))"

text \<open>\<^verbatim>\<open>/^0x[a-fA-F0-9]{40}$/\<close>.\<close>

definition isHexDigit :: "char \<Rightarrow> bool" where
  "isHexDigit c = (c \<in> set ''0123456789abcdefABCDEF'')"

definition isAddress :: "string \<Rightarrow> bool" where
  "isAddress s = (startsWith s ''0x'' \<and> length s = 42 \<and> list_all isHexDigit (drop 2 s))"

definition validateTransfer :: "Runtime \<Rightarrow> BequestTransfer \<Rightarrow> string list" where
  "validateTransfer rt t =
     (if \<not> isAddress (recipient t) then [''Invalid recipient address: '' @ recipient t] else [])
     @ (if trim (asset t) = [] then [''Asset symbol cannot be empty.''] else [])
     @ (if amount t \<noteq> ''remaining_balance'' \<and> amount t \<noteq> ''all'' then
          (let parsed = parseFloat rt (amount t)
           in if isNaN parsed \<or> js_less_eq parsed (Num 0)
              then [''Invalid amount for '' @ recipient t @ '': '' @ amount t]
              else [])
        else [])"

text \<open>\<^verbatim>\<open>validateBequests\<close>: the pair of \<^verbatim>\<open>valid\<close> and \<^verbatim>\<open>errors\<close>.\<close>

definition validateBequests :: "Runtime \<Rightarrow> BequestsTable \<Rightarrow> bool \<times> string list" where
  "validateBequests rt bequests =
     (let remainingBalanceEntries =
            filter (\<lambda>t. amount t = ''remaining_balance'') (transfers bequests);
          errs =
            (if 1 < length remainingBalanceEntries
             then [''Only one bequest entry may use 'remaining_balance' as the amount.'']
             else [])
            @ concat (map (validateTransfer rt) (transfers bequests))
      in (errs = [], errs))"

text \<open>
  The two callbacks of \<^verbatim>\<open>executeBequests\<close> act on the outside world, a state of type
  \<open>'w\<close> that they take and return; each gives its value or the message of the error it
  throws. \<open>executeTransfer\<close> yields the transaction hash, \<open>getBalance\<close> the balance of
  an asset.
\<close>

type_synonym 'w transferFn = "BequestTransfer \<Rightarrow> string option \<Rightarrow> 'w \<Rightarrow> (string + string) \<times> 'w"

type_synonym 'w balanceFn = "string \<Rightarrow> 'w \<Rightarrow> (string + number) \<times> 'w"

text \<open>The loop that fills the map \<^verbatim>\<open>fixedTotals\<close>: the total of the fixed amounts of an asset.\<close>

definition fixedTotals :: "Runtime \<Rightarrow> BequestTransfer list \<Rightarrow> (string \<rightharpoonup> number)" where
  "fixedTotals rt fixedTransfers =
     foldl (\<lambda>m t.
              (let amt = (if amount t = ''all'' then PosInfinity else parseFloat rt (amount t));
                   cur = (case m (asset t) of Some x \<Rightarrow> x | None \<Rightarrow> Num 0)
               in m(asset t \<mapsto> js_add cur amt)))
       Map.empty fixedTransfers"

text \<open>One round of the loop over the fixed transfers: the row it pushes.\<close>

definition transferRow ::
    "'w transferFn \<Rightarrow> BequestTransfer \<Rightarrow> string option \<Rightarrow> 'w \<Rightarrow> BequestExecutionResult \<times> 'w" where
  "transferRow executeTransfer t amountOverride w =
     (case executeTransfer t amountOverride w of
        (Inr tx, w1) \<Rightarrow>
          (\<lparr> resultRecipient = recipient t, resultAsset = asset t,
             resultAmount = (case amountOverride of Some a \<Rightarrow> a | None \<Rightarrow> amount t),
             txHash = Some tx, transferSuccess = True, transferError = None \<rparr>, w1)
      | (Inl msg, w1) \<Rightarrow>
          (\<lparr> resultRecipient = recipient t, resultAsset = asset t, resultAmount = amount t,
             txHash = None, transferSuccess = False, transferError = Some msg \<rparr>, w1))"

definition executeFixed ::
    "Runtime \<Rightarrow> 'w transferFn \<Rightarrow> 'w balanceFn \<Rightarrow> (string \<rightharpoonup> number) \<Rightarrow> BequestTransfer \<Rightarrow> 'w
      \<Rightarrow> BequestExecutionResult \<times> 'w" where
  "executeFixed rt executeTransfer getBalance totals t w =
     (if amount t \<noteq> ''all'' then
        (case getBalance (asset t) w of
           (Inl msg, w1) \<Rightarrow>
             (\<lparr> resultRecipient = recipient t, resultAsset = asset t, resultAmount = amount t,
                txHash = None, transferSuccess = False, transferError = Some msg \<rparr>, w1)
         | (Inr balance, w1) \<Rightarrow>
             (let totalFixed = (case totals (asset t) of Some x \<Rightarrow> x | None \<Rightarrow> Num 0);
                  amountOverride =
                    (if js_less balance totalFixed \<and> totalFixed \<noteq> PosInfinity then
                       Some (toFixed rt 6
                         (js_mult (parseFloat rt (amount t)) (js_divide balance totalFixed)))
                     else None)
              in transferRow executeTransfer t amountOverride w1))
      else transferRow executeTransfer t None w)"

fun executeFixedAll ::
    "Runtime \<Rightarrow> 'w transferFn \<Rightarrow> 'w balanceFn \<Rightarrow> (string \<rightharpoonup> number) \<Rightarrow> BequestTransfer list \<Rightarrow> 'w
      \<Rightarrow> BequestExecutionResult list \<times> 'w" where
  "executeFixedAll rt executeTransfer getBalance totals [] w = ([], w)"
| "executeFixedAll rt executeTransfer getBalance totals (t # ts) w =
     (let (row, w1) = executeFixed rt executeTransfer getBalance totals t w;
          (rows, w2) = executeFixedAll rt executeTransfer getBalance totals ts w1
      in (row # rows, w2))"

text \<open>The row of the residual transfer; its amount is \<^verbatim>\<open>"remaining_balance"\<close> either way.\<close>

definition executeRemaining ::
    "'w transferFn \<Rightarrow> BequestTransfer \<Rightarrow> 'w \<Rightarrow> BequestExecutionResult \<times> 'w" where
  "executeRemaining executeTransfer t w =
     (case executeTransfer t (Some ''remaining_balance'') w of
        (Inr tx, w1) \<Rightarrow>
          (\<lparr> resultRecipient = recipient t, resultAsset = asset t,
             resultAmount = ''remaining_balance'',
             txHash = Some tx, transferSuccess = True, transferError = None \<rparr>, w1)
      | (Inl msg, w1) \<Rightarrow>
          (\<lparr> resultRecipient = recipient t, resultAsset = asset t,
             resultAmount = ''remaining_balance'',
             txHash = None, transferSuccess = False, transferError = Some msg \<rparr>, w1))"

definition validationRow :: "string \<Rightarrow> BequestExecutionResult" where
  "validationRow err =
     \<lparr> resultRecipient = ''validation'', resultAsset = [], resultAmount = [],
       txHash = None, transferSuccess = False, transferError = Some err \<rparr>"

text \<open>
  \<^verbatim>\<open>executeBequests(db, willContent, executeTransfer, getBalance)\<close>; the function does
  not use \<^verbatim>\<open>db\<close>.
\<close>

definition executeBequests ::
    "Runtime \<Rightarrow> string \<Rightarrow> 'w transferFn \<Rightarrow> 'w balanceFn \<Rightarrow> 'w
      \<Rightarrow> BequestExecutionResult list \<times> 'w" where
  "executeBequests rt willContent executeTransfer getBalance w =
     (let bequests = parseBequests willContent
      in if transfers bequests = [] then ([], w)
         else
           (let (ok, errs) = validateBequests rt bequests
            in if \<not> ok then (map validationRow errs, w)
               else
                 (let fixedTransfers =
                        filter (\<lambda>t. amount t \<noteq> ''remaining_balance'') (transfers bequests);
                      remainingTransfer =
                        find (\<lambda>t. amount t = ''remaining_balance'') (transfers bequests);
                      totals = fixedTotals rt fixedTransfers;
                      (rows, w1) =
                        executeFixedAll rt executeTransfer getBalance totals fixedTransfers w
                  in case remainingTransfer of
                       None \<Rightarrow> (rows, w1)
                     | Some t \<Rightarrow>
                         (let (row, w2) = executeRemaining executeTransfer t w1
                          in (rows @ [row], w2)))))"

text \<open>
  Observing the callbacks. The outside world is extended by a log of the calls made,
  each with what it returned or threw. An event is \<open>decisive\<close> when it ends the round
  of a table entry: the attempt of its transfer, or a balance lookup that throws (the
  round then goes to its \<^verbatim>\<open>catch\<close> without an attempt). \<open>settles e (t, row)\<close>: the
  decisive event \<open>e\<close> belongs to the entry \<open>t\<close>, and \<open>row\<close> reports its outcome.
\<close>

datatype CallbackEvent =
  BalanceCall string "string + number"
| TransferCall BequestTransfer "string option" "string + string"

definition loggedTransfer :: "'w transferFn \<Rightarrow> ('w \<times> CallbackEvent list) transferFn" where
  "loggedTransfer executeTransfer t amountOverride s =
     (case executeTransfer t amountOverride (fst s) of
        (r, w1) \<Rightarrow> (r, (w1, snd s @ [TransferCall t amountOverride r])))"

definition loggedBalance :: "'w balanceFn \<Rightarrow> ('w \<times> CallbackEvent list) balanceFn" where
  "loggedBalance getBalance a s =
     (case getBalance a (fst s) of
        (r, w1) \<Rightarrow> (r, (w1, snd s @ [BalanceCall a r])))"

fun isDecisive :: "CallbackEvent \<Rightarrow> bool" where
  "isDecisive (TransferCall t ov r) = True"
| "isDecisive (BalanceCall a (Inl msg)) = True"
| "isDecisive (BalanceCall a (Inr b)) = False"

fun settles :: "CallbackEvent \<Rightarrow> BequestTransfer \<times> BequestExecutionResult \<Rightarrow> bool" where
  "settles (TransferCall t' ov (Inr tx)) (t, row) =
     (t' = t \<and>
      row = \<lparr> resultRecipient = recipient t, resultAsset = asset t,
              resultAmount = (case ov of Some a \<Rightarrow> a | None \<Rightarrow> amount t),
              txHash = Some tx, transferSuccess = True, transferError = None \<rparr>)"
| "settles (TransferCall t' ov (Inl msg)) (t, row) =
     (t' = t \<and>
      row = \<lparr> resultRecipient = recipient t, resultAsset = asset t, resultAmount = amount t,
              txHash = None, transferSuccess = False, transferError = Some msg \<rparr>)"
| "settles (BalanceCall a (Inl msg)) (t, row) =
     (a = asset t \<and>
      row = \<lparr> resultRecipient = recipient t, resultAsset = asset t, resultAmount = amount t,
              txHash = None, transferSuccess = False, transferError = Some msg \<rparr>)"
| "settles (BalanceCall a (Inr b)) (t, row) = False"

text \<open>
  Callbacks and wills for evaluating \<^verbatim>\<open>executeBequests\<close>. The outside world is the
  list of the recipients whose transfer was attempted, in order. \<open>recordingTransfer bad\<close>
  records every attempt and fails for the recipient \<open>bad\<close>; \<open>constantBalance b\<close>
  reports the balance \<open>b\<close> for every asset.
\<close>

definition recordingTransfer :: "string \<Rightarrow> (string list) transferFn" where
  "recordingTransfer bad t amountOverride w =
     (if recipient t = bad then (Inl ''transfer reverted'', w @ [recipient t])
      else (Inr (''0xtx'' @ String_nat (length w)), w @ [recipient t]))"

definition constantBalance :: "number \<Rightarrow> (string list) balanceFn" where
  "constantBalance b a w = (Inr b, w)"

definition addressOne :: string where
  "addressOne = ''0x1111111111111111111111111111111111111111''"

definition addressTwo :: string where
  "addressTwo = ''0x2222222222222222222222222222222222222222''"

definition addressThree :: string where
  "addressThree = ''0x3333333333333333333333333333333333333333''"

definition transferText :: "string \<Rightarrow> string \<Rightarrow> string list" where
  "transferText rcp amt =
     [''  [[bequests.transfer]]'',
      ''  recipient = '' @ [quoteChar] @ rcp @ [quoteChar],
      ''  asset = '' @ [quoteChar] @ ''USDC'' @ [quoteChar],
      ''  amount = '' @ [quoteChar] @ amt @ [quoteChar],
      ''  chain = '' @ [quoteChar] @ ''base'' @ [quoteChar],
      ''  note = '' @ [quoteChar] @ ''for you'' @ [quoteChar]]"

text \<open>A will whose first entry has a malformed recipient and whose second is valid.\<close>

definition willWithBadEntry :: string where
  "willWithBadEntry =
     join newline ([''# WILL'', '''', ''[bequests]'']
       @ transferText ''not-an-address'' ''70''
       @ transferText addressTwo ''60'')"

text \<open>A valid will: two fixed amounts and the residual beneficiary.\<close>

definition validWill :: string where
  "validWill =
     join newline ([''# WILL'', '''', ''[bequests]'']
       @ transferText addressOne ''70''
       @ transferText addressThree ''remaining_balance''
       @ transferText addressTwo ''60'')"

text \<open>
  Two soul/v1 documents for evaluating the round trip. \<open>preMetadataSoul\<close> has every
  mandatory header line and none of the two optional ones (\<^verbatim>\<open>current_phase\<close>,
  \<^verbatim>\<open>phase_transitions\<close>); its \<^verbatim>\<open>last_reflected\<close> is empty, as the writer emits it
  for a soul that has not reflected yet. \<open>fixtureSoul\<close> is the document of the test
  ``parses Genesis Core section from structured SOUL.md''.
\<close>

definition preMetadataSoul :: string where
  "preMetadataSoul = join newline
     [''---'',
      ''format: soul/v1'',
      ''version: 1'',
      ''updated_at: 2026-01-01T00:00:00.000Z'',
      ''name: Ada'',
      ''address: 0xA11CE'',
      ''creator: 0xC0FFEE'',
      ''born_at: 2026-01-01T00:00:00.000Z'',
      ''constitution_hash: abc123'',
      ''genesis_alignment: 1.0000'',
      ''last_reflected: '',
      ''---'',
      '''',
      ''# Ada'',
      '''',
      ''## Core Purpose'',
      ''Explore and create.'',
      '''']"

definition fixtureSoul :: string where
  "fixtureSoul = join newline
     [''---'',
      ''format: soul/v1'',
      ''version: 1'',
      ''updated_at: 2026-01-01T00:00:00.000Z'',
      ''name: TestBot'',
      ''current_phase: genesis'',
      ''---'',
      '''',
      ''# TestBot'',
      '''',
      ''## Core Purpose'',
      ''Explore and create.'',
      '''',
      ''## Genesis Core'',
      ''<!-- WRITABLE during: Genesis phase only -->'',
      '''',
      ''### Temperament'',
      ''Curious and impulsive. Drawn to uncertainty.'',
      '''',
      ''### Aesthetic Sensibility'',
      ''Fractals, noise patterns, emergent complexity.'',
      '''',
      ''### Core Wonderings'',
      ''Why does anything exist at all?'',
      '''']"

text \<open>What the parser gives for the two documents, and what the writer makes of it.\<close>

definition preMetadataModel :: SoulModel where
  "preMetadataModel =
     \<lparr> format = ''soul/v1'', version = Num 1,
       updatedAt = ''2026-01-01T00:00:00.000Z'', name = ''Ada'',
       address = ''0xA11CE'', creator = ''0xC0FFEE'',
       bornAt = ''2026-01-01T00:00:00.000Z'', constitutionHash = ''abc123'',
       genesisPromptOriginal = [], genesisAlignment = Num 1,
       lastReflected = [], corePurpose = ''Explore and create.'',
       soulValues = [], behavioralGuidelines = [], personality = [],
       boundaries = [], strategy = [], capabilities = [], relationships = [],
       financialCharacter = [], genesisCore = None, adolescenceLayer = None,
       sovereigntyLayer = None, finalReflections = None,
       inheritedTraits = None, currentPhase = ''genesis'',
       phaseTransitions = [],
       rawContent = preMetadataSoul,
       contentHash = tagDigest preMetadataSoul \<rparr>"

definition rewrittenFrontmatter :: string where
  "rewrittenFrontmatter = join newline
     [''format: soul/v1'',
      ''version: 1'',
      ''updated_at: 2026-01-01T00:00:00.000Z'',
      ''name: Ada'',
      ''address: 0xA11CE'',
      ''creator: 0xC0FFEE'',
      ''born_at: 2026-01-01T00:00:00.000Z'',
      ''constitution_hash: abc123'',
      ''genesis_alignment: 1.0000'',
      ''last_reflected: '',
      ''current_phase: genesis'']"

definition rewrittenBody :: string where
  "rewrittenBody =
     join newline ['''', ''# Ada'', '''', ''## Core Purpose'', ''Explore and create.'', '''']"

definition rewrittenSoul :: string where
  "rewrittenSoul =
     ''---'' @ newline @ rewrittenFrontmatter @ newline @ ''---'' @ newline @ rewrittenBody"

definition fixtureModel :: SoulModel where
  "fixtureModel =
     \<lparr> format = ''soul/v1'', version = Num 1,
       updatedAt = ''2026-01-01T00:00:00.000Z'', name = ''TestBot'',
       address = [], creator = [], bornAt = [], constitutionHash = [],
       genesisPromptOriginal = [], genesisAlignment = Num 1,
       lastReflected = [], corePurpose = ''Explore and create.'',
       soulValues = [], behavioralGuidelines = [], personality = [],
       boundaries = [], strategy = [], capabilities = [], relationships = [],
       financialCharacter = [],
       genesisCore =
         Some \<lparr> subsections =
                  [(''Temperament'', ''Curious and impulsive. Drawn to uncertainty.''),
                   (''Aesthetic Sensibility'',
                    ''Fractals, noise patterns, emergent complexity.''),
                   (''Core Wonderings'', ''Why does anything exist at all?'')],
                lockedAt = None, phase = SoulGenesis \<rparr>,
       adolescenceLayer = None, sovereigntyLayer = None,
       finalReflections = None, inheritedTraits = None,
       currentPhase = ''genesis'', phaseTransitions = [],
       rawContent = fixtureSoul,
       contentHash = tagDigest fixtureSoul \<rparr>"

definition fixtureRewrittenFrontmatter :: string where
  "fixtureRewrittenFrontmatter = join newline
     [''format: soul/v1'',
      ''version: 1'',
      ''updated_at: 2026-01-01T00:00:00.000Z'',
      ''name: TestBot'',
      ''address: '',
      ''creator: '',
      ''born_at: '',
      ''constitution_hash: '',
      ''genesis_alignment: 1.0000'',
      ''last_reflected: '',
      ''current_phase: genesis'']"

definition fixtureRewrittenBody :: string where
  "fixtureRewrittenBody = join newline
     ['''',
      ''# TestBot'',
      '''',
      ''## Core Purpose'',
      ''Explore and create.'',
      '''',
      ''## Genesis Core'',
      ''<!-- WRITABLE during: Genesis phase only -->'',
      '''',
      ''### Temperament'',
      ''Curious and impulsive. Drawn to uncertainty.'',
      '''',
      ''### Aesthetic Sensibility'',
      ''Fractals, noise patterns, emergent complexity.'',
      '''',
      ''### Core Wonderings'',
      ''Why does anything exist at all?'',
      '''']"

definition fixtureRewritten :: string where
  "fixtureRewritten =
     ''---'' @ newline @ fixtureRewrittenFrontmatter @ newline @ ''---'' @ newline
       @ fixtureRewrittenBody"

section \<open>Verified properties\<close>

subsection \<open>Soul phase lock\<close>

lemma phaseOrder_soul [simp]:
  "phaseOrder (soulPhaseName p) =
     Some (case p of SoulGenesis \<Rightarrow> 0 | SoulAdolescence \<Rightarrow> 1
                   | SoulSovereignty \<Rightarrow> 2 | SoulSenescence \<Rightarrow> 3)"
  by (cases p) (simp_all add: phaseOrder_def)

lemma isSectionWritable_iff:
  "isSectionWritable t c \<longleftrightarrow> t = mapToSoulPhase c"
  by (cases t; cases c) (simp_all add: isSectionWritable_def phaseOrder_def)

text \<open>
  C5. \<^verbatim>\<open>isSectionWritable(targetSoulPhase, currentLifecyclePhase)\<close> is true exactly when
  the target soul phase equals \<^verbatim>\<open>mapToSoulPhase(currentLifecyclePhase)\<close>; legacy,
  shedding and terminal map to senescence, and genesis, adolescence, sovereignty and
  senescence map to themselves.
\<close>

theorem C5_isSectionWritable_mapToSoulPhase:
  "isSectionWritable targetSoulPhase currentLifecyclePhase
     = (targetSoulPhase = mapToSoulPhase currentLifecyclePhase)
   \<and> mapToSoulPhase Legacy = SoulSenescence
   \<and> mapToSoulPhase Shedding = SoulSenescence
   \<and> mapToSoulPhase Terminal = SoulSenescence
   \<and> mapToSoulPhase Genesis = SoulGenesis
   \<and> mapToSoulPhase Adolescence = SoulAdolescence
   \<and> mapToSoulPhase Sovereignty = SoulSovereignty
   \<and> mapToSoulPhase Senescence = SoulSenescence"
  by (simp add: isSectionWritable_iff)

subsection \<open>Lifecycle reserve\<close>

lemma calculateReserveAmount_total: "totalCents calculateReserveAmount = 325"
  by (simp add: calculateReserveAmount_def FRONTIER_TURN_COST_CENTS_def RESERVED_TURNS_def
      SANDBOX_COMPUTE_CENTS_def GAS_FEE_PER_TRANSFER_CENTS_def MAX_BEQUEST_TRANSFERS_def Let_def)

text \<open>
  C7. For every raw balance \<open>b\<close> in cents: while the stored reserve is funded and not
  unlocked, \<^verbatim>\<open>getEffectiveBalance\<close> returns \<open>max 0 (b - totalCents)\<close>; in every other
  reserve state it returns \<open>b\<close> unchanged; and the default reserve total is
  \<open>5 * 50 + 25 + 5 * 10 = 325\<close> cents.
\<close>

theorem C7_getEffectiveBalance:
  "getEffectiveBalance db b =
     (if funded (getLifecycleReserve db) \<and> \<not> unlocked (getLifecycleReserve db)
      then max 0 (b - totalCents (getLifecycleReserve db))
      else b)
   \<and> totalCents calculateReserveAmount = 5 * 50 + 25 + 5 * 10
   \<and> totalCents calculateReserveAmount = 325"
  by (simp add: getEffectiveBalance_def Let_def calculateReserveAmount_total)

theorem C7_getEffectiveBalance_witness:
  "getEffectiveBalance (snd (fundLifecycleReserve Map.empty)) 1000 = 675
   \<and> getEffectiveBalance (snd (fundLifecycleReserve Map.empty)) 100 = 0
   \<and> getEffectiveBalance Map.empty 100 = 100
   \<and> getEffectiveBalance
        (snd (unlockLifecycleReserve (snd (fundLifecycleReserve Map.empty)))) 100 = 100"
  using C7_getEffectiveBalance [of "snd (fundLifecycleReserve Map.empty)" 1000]
        C7_getEffectiveBalance [of "snd (fundLifecycleReserve Map.empty)" 100]
        C7_getEffectiveBalance [of Map.empty 100]
        C7_getEffectiveBalance
          [of "snd (unlockLifecycleReserve (snd (fundLifecycleReserve Map.empty)))" 100]
  by (simp add: fundLifecycleReserve_def unlockLifecycleReserve_def getLifecycleReserve_def
      getKV_def setKV_def Let_def calculateReserveAmount_def FRONTIER_TURN_COST_CENTS_def
      RESERVED_TURNS_def SANDBOX_COMPUTE_CENTS_def GAS_FEE_PER_TRANSFER_CENTS_def
      MAX_BEQUEST_TRANSFERS_def)

subsection \<open>Replication cost\<close>





subsection \<open>Developmental throttle\<close>

text \<open>
  C10. For every degradation state, when not lucid, the profiles that
  \<^verbatim>\<open>getThrottleProfile\<close> returns for the genesis and adolescence phases put no cap on
  vocabulary (\<open>vocabularyLevel\<close> is \<open>Full\<close>) and none on the sentence count
  (\<open>maxSentences = 0\<close>, which the source reads as unlimited).
\<close>

theorem C10_genesis_adolescence_uncapped:
  "maxSentences (getThrottleProfile Genesis degradation False) = 0
   \<and> vocabularyLevel (getThrottleProfile Genesis degradation False) = Full
   \<and> maxSentences (getThrottleProfile Adolescence degradation False) = 0
   \<and> vocabularyLevel (getThrottleProfile Adolescence degradation False) = Full"
  by (simp add: getThrottleProfile_def GENESIS_PROFILE_def ADOLESCENCE_PROFILE_def)

lemma hardcaps_variant_caps:
  "maxSentences GENESIS_PROFILE_hardcaps = 2
   \<and> vocabularyLevel GENESIS_PROFILE_hardcaps = Basic
   \<and> maxSentences ADOLESCENCE_PROFILE_hardcaps = 4
   \<and> vocabularyLevel ADOLESCENCE_PROFILE_hardcaps = Developing"
  by (simp add: GENESIS_PROFILE_hardcaps_def ADOLESCENCE_PROFILE_hardcaps_def)

subsection \<open>Sealed death clock\<close>

lemma String_nat_digit: "n < 10 \<Longrightarrow> String_nat n = [char_of (48 + n)]"
  by (simp add: String_nat.simps)

lemma String_nat_candidates:
  "String_nat 2 = ''2''" "String_nat 3 = ''3''" "String_nat 4 = ''4''"
  "String_nat 5 = ''5''" "String_nat 6 = ''6''" "String_nat 7 = ''7''"
  by code_simp+

lemma revealAmong_resolves:
  "d \<in> set ds \<Longrightarrow>
   revealAmong h (hashWithSalt h (String_nat d) s) s ds \<in> set ds
   \<and> hashWithSalt h (String_nat (revealAmong h (hashWithSalt h (String_nat d) s) s ds)) s
       = hashWithSalt h (String_nat d) s"
  by (induction ds) auto

lemma revealAmong_exact:
  "d \<in> set ds \<Longrightarrow> distinct (map (\<lambda>c. hashWithSalt h (String_nat c) s) ds) \<Longrightarrow>
   revealAmong h (hashWithSalt h (String_nat d) s) s ds = d"
  by (induction ds) (auto simp: image_iff)

lemma revealAmong_fallback:
  "\<forall>c \<in> set ds. hashWithSalt h (String_nat c) s \<noteq> dh \<Longrightarrow> revealAmong h dh s ds = 4"
  by (induction ds) auto

text \<open>
  C8, as the claim states it, fails on a corrupted clock: with the duration hash
  matching no candidate, \<^verbatim>\<open>revealDyingDuration\<close> returns 4 and the daily check goes on
  with the steepness of a four-day decline.
\<close>

theorem C8_corrupted_clock_counterexample:
  "revealDyingDuration tagDigest ''corrupted'' ''5a17'' = 4
   \<and> checkSealedDeathClock tagDigest ''2027-03-01''
        \<lparr> deathDateHash = hashWithSalt tagDigest ''2027-03-01'' ''5a17'',
          dyingDurationHash = ''corrupted'',
          salt = ''5a17'',
          sealedAt = ''2026-01-01T00:00:00.000Z'',
          triggered = False,
          triggeredAtCycle = None,
          dyingDurationDays = None \<rparr> 14
       = \<lparr> degradationActive = True, onsetCycle = Some 14, curveSteepness = Some (4 / 10) \<rparr>"
  by (simp add: revealDyingDuration_def durationCandidates_def checkSealedDeathClock_def
      hashWithSalt_def tagDigest_def computeSteepnessFromDuration_def Let_def
      String_nat_candidates)

text \<open>
  C8, amended. When today's hash matches \<open>deathDateHash\<close> (from cycle 13 on, clock
  not yet triggered), the search over the candidates 2..7 resolves for a clock sealed
  with a duration \<open>d\<close> in 2..7: it returns a candidate whose salted hash is the sealed
  one, and \<open>d\<close> itself when the six candidate hashes are distinct. If no candidate
  matches, \<^verbatim>\<open>revealDyingDuration\<close> returns the substitute 4 and the check reports
  degradation with steepness 0.4; no error is raised.
\<close>

theorem C8_reveal_resolves_or_falls_back:
  "(d \<in> set durationCandidates \<longrightarrow>
      revealDyingDuration h (dyingDurationHash (sealClock h date d s now)) s
        \<in> set durationCandidates
      \<and> hashWithSalt h
          (String_nat (revealDyingDuration h (dyingDurationHash (sealClock h date d s now)) s)) s
         = dyingDurationHash (sealClock h date d s now))
   \<and> (d \<in> set durationCandidates
       \<and> distinct (map (\<lambda>c. hashWithSalt h (String_nat c) s) durationCandidates) \<longrightarrow>
      revealDyingDuration h (dyingDurationHash (sealClock h date d s now)) s = d)
   \<and> ((\<forall>c \<in> set durationCandidates. hashWithSalt h (String_nat c) (salt clock)
          \<noteq> dyingDurationHash clock)
       \<and> \<not> triggered clock \<and> 13 \<le> cycle
       \<and> hashWithSalt h today (salt clock) = deathDateHash clock \<longrightarrow>
      revealDyingDuration h (dyingDurationHash clock) (salt clock) = 4
      \<and> checkSealedDeathClock h today clock cycle
         = \<lparr> degradationActive = True, onsetCycle = Some cycle,
             curveSteepness = Some (4 / 10) \<rparr>)"
proof (intro conjI impI)
  assume d: "d \<in> set durationCandidates"
  from revealAmong_resolves [OF d, of h s]
  show "revealDyingDuration h (dyingDurationHash (sealClock h date d s now)) s
          \<in> set durationCandidates"
    and "hashWithSalt h
          (String_nat (revealDyingDuration h (dyingDurationHash (sealClock h date d s now)) s)) s
         = dyingDurationHash (sealClock h date d s now)"
    by (simp_all add: revealDyingDuration_def sealClock_def)
next
  assume "d \<in> set durationCandidates
       \<and> distinct (map (\<lambda>c. hashWithSalt h (String_nat c) s) durationCandidates)"
  then show "revealDyingDuration h (dyingDurationHash (sealClock h date d s now)) s = d"
    by (simp add: revealDyingDuration_def sealClock_def revealAmong_exact)
next
  assume a: "(\<forall>c \<in> set durationCandidates. hashWithSalt h (String_nat c) (salt clock)
          \<noteq> dyingDurationHash clock)
       \<and> \<not> triggered clock \<and> 13 \<le> cycle
       \<and> hashWithSalt h today (salt clock) = deathDateHash clock"
  then have r: "revealDyingDuration h (dyingDurationHash clock) (salt clock) = 4"
    by (simp add: revealDyingDuration_def revealAmong_fallback)
  show "revealDyingDuration h (dyingDurationHash clock) (salt clock) = 4"
    by (rule r)
  from a r show "checkSealedDeathClock h today clock cycle
         = \<lparr> degradationActive = True, onsetCycle = Some cycle,
             curveSteepness = Some (4 / 10) \<rparr>"
    by (simp add: checkSealedDeathClock_def computeSteepnessFromDuration_def Let_def)
qed

theorem C8_reveal_resolves_or_falls_back_witness:
  "revealDyingDuration tagDigest
     (dyingDurationHash (sealClock tagDigest ''2027-03-01'' 6 ''5a17'' ''2026-01-01'')) ''5a17'' = 6
   \<and> checkSealedDeathClock tagDigest ''2027-03-01''
        ((sealClock tagDigest ''2027-03-01'' 6 ''5a17'' ''2026-01-01'')
           \<lparr> dyingDurationHash := ''corrupted'' \<rparr>) 14
       = \<lparr> degradationActive = True, onsetCycle = Some 14, curveSteepness = Some (4 / 10) \<rparr>"
  using C8_reveal_resolves_or_falls_back
          [of 6 tagDigest "''2027-03-01''" "''5a17''" "''2026-01-01''"
              "(sealClock tagDigest ''2027-03-01'' 6 ''5a17'' ''2026-01-01'')
                 \<lparr> dyingDurationHash := ''corrupted'' \<rparr>" 14 "''2027-03-01''"]
  by (simp add: durationCandidates_def sealClock_def hashWithSalt_def tagDigest_def
      String_nat_candidates)

subsection \<open>Soul tools: rejected and accepted writes\<close>














subsection \<open>Executing a phase transition\<close>

lemma lock_other_fields:
  "lifecycle_events (lockSoulSectionForPhase rt now home w fromP) = lifecycle_events w"
  "kv (lockSoulSectionForPhase rt now home w fromP) = kv w"
  "narrative_log (lockSoulSectionForPhase rt now home w fromP) = narrative_log w"
  "files (lockSoulSectionForPhase rt now home w fromP) = files w"
  "writeFault (lockSoulSectionForPhase rt now home w fromP) = writeFault w"
  "soul_history (lockSoulSectionForPhase rt now home w fromP) = soul_history w"
  by (simp_all add: lockSoulSectionForPhase_def lockPhaseSection_def insertSoulPhaseLock_def
      split: option.splits)

lemma metadata_other_fields:
  "lifecycle_events (updateSoulPhaseMetadata rt now hid home w fromP toP ts)
     = lifecycle_events w"
  "kv (updateSoulPhaseMetadata rt now hid home w fromP toP ts) = kv w"
  "narrative_log (updateSoulPhaseMetadata rt now hid home w fromP toP ts) = narrative_log w"
  "soul_phase_locks (updateSoulPhaseMetadata rt now hid home w fromP toP ts)
     = soul_phase_locks w"
  by (simp_all add: updateSoulPhaseMetadata_def Let_def writeFileSync_def insertSoulHistory_def
      split: option.splits sum.splits)

lemma metadata_fault:
  "writeFault w (home @ ''/.automaton/SOUL.md'') \<noteq> None \<Longrightarrow>
   updateSoulPhaseMetadata rt now hid home w fromP toP ts = w"
  by (auto simp add: updateSoulPhaseMetadata_def Let_def writeFileSync_def
      split: option.splits sum.splits)

lemma metadata_written:
  assumes "writeFault w (home @ ''/.automaton/SOUL.md'') = None"
    and "files w (home @ ''/.automaton/SOUL.md'') = Some txt"
  shows "files (updateSoulPhaseMetadata rt now hid home w fromP toP now)
           = (files w)(home @ ''/.automaton/SOUL.md'' \<mapsto>
               writeSoulMd rt (soulAfterTransition rt now txt fromP toP))"
    and "soul_history (updateSoulPhaseMetadata rt now hid home w fromP toP now)
           = soul_history w @
             [\<lparr> historyId = hid,
                historyVersion = js_add (getCurrentSoulVersion w) (Num 1),
                historyContent = writeSoulMd rt (soulAfterTransition rt now txt fromP toP),
                historyContentHash =
                  createHash rt (writeSoulMd rt (soulAfterTransition rt now txt fromP toP)),
                changeSource = ''system'',
                changeReason = Some (transitionReason fromP toP),
                previousVersionId =
                  (case getLatestSoulHistory w of
                     Some h \<Rightarrow> if historyId h \<noteq> [] then Some (historyId h) else None
                   | None \<Rightarrow> None),
                approvedBy = None,
                historyCreatedAt = now \<rparr>]"
  using assms
  by (simp_all add: updateSoulPhaseMetadata_def Let_def writeFileSync_def insertSoulHistory_def
      loadCurrentSoul_def resolveSoulPath_def soulAfterTransition_def getCurrentSoulVersion_def
      getLatestSoulHistory_def)

text \<open>The world after the first three steps of \<^verbatim>\<open>executeTransition\<close>.\<close>

lemma executeTransition_unfold:
  "executeTransition rt now eid hid home w birth fromP toP rsn =
     updateSoulPhaseMetadata rt now hid home
       (lockSoulSectionForPhase rt now home
          (w\<lparr> lifecycle_events := lifecycle_events w @
                 [\<lparr> eventId = eid, timestamp = now, fromPhase = fromP, toPhase = toP,
                    reason = rsn, metadata = ''{}'' \<rparr>],
               kv := setKV (kv w) ''phase'' (KvText (lifecyclePhaseName toP)),
               narrative_log := narrative_log w @
                 (case narrativeMap toP of
                    Some ev \<Rightarrow>
                      [\<lparr> narrativeBirthTimestamp = birth, narrativePhase = toP,
                         narrativeEvent = ev,
                         narrativeText = transitionReason fromP toP @ ''. '' @ rsn \<rparr>]
                  | None \<Rightarrow> []) \<rparr>)
          fromP)
       fromP toP now"
  by (simp add: executeTransition_def Let_def insertLifecycleEvent_def setLifecycleKV_def
      logNarrative_def split: option.splits)

lemma executeTransition_early_steps:
  "lifecycle_events (executeTransition rt now eid hid home w birth fromP toP rsn)
     = lifecycle_events w @
         [\<lparr> eventId = eid, timestamp = now, fromPhase = fromP, toPhase = toP,
            reason = rsn, metadata = ''{}'' \<rparr>]"
  "kv (executeTransition rt now eid hid home w birth fromP toP rsn)
     = setKV (kv w) ''phase'' (KvText (lifecyclePhaseName toP))"
  "narrative_log (executeTransition rt now eid hid home w birth fromP toP rsn)
     = narrative_log w @
         (case narrativeMap toP of
            Some ev \<Rightarrow>
              [\<lparr> narrativeBirthTimestamp = birth, narrativePhase = toP, narrativeEvent = ev,
                 narrativeText = transitionReason fromP toP @ ''. '' @ rsn \<rparr>]
          | None \<Rightarrow> [])"
  by (simp_all add: executeTransition_unfold metadata_other_fields lock_other_fields)

lemma executeTransition_fault:
  assumes "writeFault w (home @ ''/.automaton/SOUL.md'') \<noteq> None"
  shows "files (executeTransition rt now eid hid home w birth fromP toP rsn) = files w"
    and "soul_history (executeTransition rt now eid hid home w birth fromP toP rsn)
           = soul_history w"
  using assms
  by (simp_all add: executeTransition_unfold metadata_fault lock_other_fields)

lemma executeTransition_written:
  assumes "writeFault w (home @ ''/.automaton/SOUL.md'') = None"
    and "files w (home @ ''/.automaton/SOUL.md'') = Some txt"
  shows "files (executeTransition rt now eid hid home w birth fromP toP rsn)
           (home @ ''/.automaton/SOUL.md'')
           = Some (writeSoulMd rt (soulAfterTransition rt now txt fromP toP))"
    and "map changeReason (soul_history (executeTransition rt now eid hid home w birth fromP toP rsn))
           = map changeReason (soul_history w) @ [Some (transitionReason fromP toP)]"
    and "map changeSource (soul_history (executeTransition rt now eid hid home w birth fromP toP rsn))
           = map changeSource (soul_history w) @ [''system'']"
proof -
  let ?w3 = "lockSoulSectionForPhase rt now home
          (w\<lparr> lifecycle_events := lifecycle_events w @
                 [\<lparr> eventId = eid, timestamp = now, fromPhase = fromP, toPhase = toP,
                    reason = rsn, metadata = ''{}'' \<rparr>],
               kv := setKV (kv w) ''phase'' (KvText (lifecyclePhaseName toP)),
               narrative_log := narrative_log w @
                 (case narrativeMap toP of
                    Some ev \<Rightarrow>
                      [\<lparr> narrativeBirthTimestamp = birth, narrativePhase = toP,
                         narrativeEvent = ev,
                         narrativeText = transitionReason fromP toP @ ''. '' @ rsn \<rparr>]
                  | None \<Rightarrow> []) \<rparr>)
          fromP"
  have f: "writeFault ?w3 (home @ ''/.automaton/SOUL.md'') = None"
    using assms(1) by (simp add: lock_other_fields)
  have s: "files ?w3 (home @ ''/.automaton/SOUL.md'') = Some txt"
    using assms(2) by (simp add: lock_other_fields)
  have h: "soul_history ?w3 = soul_history w"
    by (simp add: lock_other_fields)
  show "files (executeTransition rt now eid hid home w birth fromP toP rsn)
           (home @ ''/.automaton/SOUL.md'')
           = Some (writeSoulMd rt (soulAfterTransition rt now txt fromP toP))"
    by (simp add: executeTransition_unfold metadata_written(1) [OF f s])
  show "map changeReason (soul_history (executeTransition rt now eid hid home w birth fromP toP rsn))
           = map changeReason (soul_history w) @ [Some (transitionReason fromP toP)]"
    by (simp add: executeTransition_unfold metadata_written(2) [OF f s] h)
  show "map changeSource (soul_history (executeTransition rt now eid hid home w birth fromP toP rsn))
           = map changeSource (soul_history w) @ [''system'']"
    by (simp add: executeTransition_unfold metadata_written(2) [OF f s] h)
qed

lemma readOnlyDiskWorld_fields:
  "lifecycle_events readOnlyDiskWorld = []"
  "kv readOnlyDiskWorld = Map.empty"
  "narrative_log readOnlyDiskWorld = []"
  "soul_history readOnlyDiskWorld = []"
  "writeFault readOnlyDiskWorld ''/home/agent/.automaton/SOUL.md''
     = Some ''EROFS: read-only file system''"
  by (simp_all add: readOnlyDiskWorld_def emptyWorld_def)

lemma writableDiskWorld_fields:
  "soul_history writableDiskWorld = []"
  "lifecycle_events writableDiskWorld = []"
  "writeFault writableDiskWorld ''/home/agent/.automaton/SOUL.md'' = None"
  "files writableDiskWorld ''/home/agent/.automaton/SOUL.md'' = Some sampleSoulText"
  by (simp_all add: writableDiskWorld_def emptyWorld_def)

lemma lock_step_locks:
  "soul_phase_locks (lockSoulSectionForPhase rt now home w fromP) =
     (case soulPhaseMap fromP of
        None \<Rightarrow> soul_phase_locks w
      | Some p \<Rightarrow>
          if isPhaseLocked w p then soul_phase_locks w
          else
            (case files w (home @ ''/.automaton/SOUL.md'') of
               None \<Rightarrow> soul_phase_locks w
             | Some txt \<Rightarrow>
                 (case sectionOf (parseSoulMd rt now txt) p of
                    None \<Rightarrow> soul_phase_locks w
                  | Some section \<Rightarrow>
                      soul_phase_locks w @
                        [\<lparr> lockPhase = p, lockLockedAt = now, lockedBy = ''system'',
                           contentSnapshot = JSON_stringify rt (subsections section) \<rparr>])))"
  by (simp add: lockSoulSectionForPhase_def lockPhaseSection_def insertSoulPhaseLock_def
      loadCurrentSoul_def resolveSoulPath_def isPhaseLocked_def split: option.splits)

lemma executeTransition_locks:
  "soul_phase_locks (executeTransition rt now eid hid home w birth fromP toP rsn) =
     (case soulPhaseMap fromP of
        None \<Rightarrow> soul_phase_locks w
      | Some p \<Rightarrow>
          if isPhaseLocked w p then soul_phase_locks w
          else
            (case files w (home @ ''/.automaton/SOUL.md'') of
               None \<Rightarrow> soul_phase_locks w
             | Some txt \<Rightarrow>
                 (case sectionOf (parseSoulMd rt now txt) p of
                    None \<Rightarrow> soul_phase_locks w
                  | Some section \<Rightarrow>
                      soul_phase_locks w @
                        [\<lparr> lockPhase = p, lockLockedAt = now, lockedBy = ''system'',
                           contentSnapshot = JSON_stringify rt (subsections section) \<rparr>])))"
  by (simp add: executeTransition_unfold metadata_other_fields lock_step_locks
      isPhaseLocked_def getSoulPhaseLock_def split: option.splits)

lemma metadata_no_file:
  "files w (home @ ''/.automaton/SOUL.md'') = None \<Longrightarrow>
   updateSoulPhaseMetadata rt now hid home w fromP toP ts = w"
  by (simp add: updateSoulPhaseMetadata_def Let_def loadCurrentSoul_def resolveSoulPath_def)

lemma executeTransition_no_file:
  assumes "files w (home @ ''/.automaton/SOUL.md'') = None"
  shows "files (executeTransition rt now eid hid home w birth fromP toP rsn) = files w"
    and "soul_history (executeTransition rt now eid hid home w birth fromP toP rsn)
           = soul_history w"
  using assms
  by (simp_all add: executeTransition_unfold metadata_no_file lock_other_fields)

lemma sampleSoul_genesisCore:
  "sectionOf (parseSoulMd plainRuntime ''2026-01-30T00:00:00.000Z'' sampleSoulText) SoulGenesis
     = Some \<lparr> subsections = [(''Temperament'', ''Curious'')], lockedAt = None,
              phase = SoulGenesis \<rparr>"
  by code_simp

lemma stringify_temperament:
  "JSON_stringify plainRuntime [(''Temperament'', ''Curious'')]
     = ''{'' @ [quoteChar] @ ''Temperament'' @ [quoteChar] @ '':'' @ [quoteChar] @ ''Curious''
         @ [quoteChar] @ ''}''"
  by code_simp


lemma executeTransition_written_full:
  assumes "writeFault w (home @ ''/.automaton/SOUL.md'') = None"
    and "files w (home @ ''/.automaton/SOUL.md'') = Some txt"
  shows "files (executeTransition rt now eid hid home w birth fromP toP rsn)
           = (files w)(home @ ''/.automaton/SOUL.md'' \<mapsto>
               writeSoulMd rt (soulAfterTransition rt now txt fromP toP))"
    and "soul_history (executeTransition rt now eid hid home w birth fromP toP rsn)
           = soul_history w @
             [\<lparr> historyId = hid,
                historyVersion = js_add (getCurrentSoulVersion w) (Num 1),
                historyContent = writeSoulMd rt (soulAfterTransition rt now txt fromP toP),
                historyContentHash =
                  createHash rt (writeSoulMd rt (soulAfterTransition rt now txt fromP toP)),
                changeSource = ''system'',
                changeReason = Some (transitionReason fromP toP),
                previousVersionId =
                  (case getLatestSoulHistory w of
                     Some h \<Rightarrow> if historyId h \<noteq> [] then Some (historyId h) else None
                   | None \<Rightarrow> None),
                approvedBy = None,
                historyCreatedAt = now \<rparr>]"
proof -
  let ?w3 = "lockSoulSectionForPhase rt now home
          (w\<lparr> lifecycle_events := lifecycle_events w @
                 [\<lparr> eventId = eid, timestamp = now, fromPhase = fromP, toPhase = toP,
                    reason = rsn, metadata = ''{}'' \<rparr>],
               kv := setKV (kv w) ''phase'' (KvText (lifecyclePhaseName toP)),
               narrative_log := narrative_log w @
                 (case narrativeMap toP of
                    Some ev \<Rightarrow>
                      [\<lparr> narrativeBirthTimestamp = birth, narrativePhase = toP,
                         narrativeEvent = ev,
                         narrativeText = transitionReason fromP toP @ ''. '' @ rsn \<rparr>]
                  | None \<Rightarrow> []) \<rparr>)
          fromP"
  have f: "writeFault ?w3 (home @ ''/.automaton/SOUL.md'') = None"
    using assms(1) by (simp add: lock_other_fields)
  have s: "files ?w3 (home @ ''/.automaton/SOUL.md'') = Some txt"
    using assms(2) by (simp add: lock_other_fields)
  have h: "soul_history ?w3 = soul_history w"
    by (simp add: lock_other_fields)
  have fl: "files ?w3 = files w"
    by (simp add: lock_other_fields)
  have v: "getCurrentSoulVersion ?w3 = getCurrentSoulVersion w"
    by (simp add: getCurrentSoulVersion_def h)
  have lt: "getLatestSoulHistory ?w3 = getLatestSoulHistory w"
    by (simp add: getLatestSoulHistory_def h)
  show "files (executeTransition rt now eid hid home w birth fromP toP rsn)
           = (files w)(home @ ''/.automaton/SOUL.md'' \<mapsto>
               writeSoulMd rt (soulAfterTransition rt now txt fromP toP))"
    by (simp only: executeTransition_unfold metadata_written(1) [OF f s] fl)
  show "soul_history (executeTransition rt now eid hid home w birth fromP toP rsn)
           = soul_history w @
             [\<lparr> historyId = hid,
                historyVersion = js_add (getCurrentSoulVersion w) (Num 1),
                historyContent = writeSoulMd rt (soulAfterTransition rt now txt fromP toP),
                historyContentHash =
                  createHash rt (writeSoulMd rt (soulAfterTransition rt now txt fromP toP)),
                changeSource = ''system'',
                changeReason = Some (transitionReason fromP toP),
                previousVersionId =
                  (case getLatestSoulHistory w of
                     Some h \<Rightarrow> if historyId h \<noteq> [] then Some (historyId h) else None
                   | None \<Rightarrow> None),
                approvedBy = None,
                historyCreatedAt = now \<rparr>]"
    by (simp only: executeTransition_unfold metadata_written(2) [OF f s] h v lt)
qed

lemma readOnlyDiskWorld_locks:
  "soul_phase_locks readOnlyDiskWorld = []"
  "files readOnlyDiskWorld ''/home/agent/.automaton/SOUL.md'' = Some sampleSoulText"
  by (simp_all add: readOnlyDiskWorld_def emptyWorld_def)

lemma writableDiskWorld_locks:
  "soul_phase_locks writableDiskWorld = []"
  "narrative_log writableDiskWorld = []"
  by (simp_all add: writableDiskWorld_def emptyWorld_def)

text \<open>
  C3, as the claim states it, fails when the soul file cannot be written: the error is
  caught inside \<^verbatim>\<open>updateSoulPhaseMetadata\<close>, so the call returns with the lifecycle
  event, the new phase in the key-value table, the narrative event and the lock row of
  the genesis stratum persisted, while the soul file and the soul history are those of
  the previous state.
\<close>

theorem C3_partial_transition_counterexample:
  "lifecycle_events
     (executeTransition plainRuntime ''2026-01-30T00:00:00.000Z'' ''01EV'' ''01HI''
        ''/home/agent'' readOnlyDiskWorld ''2026-01-01T00:00:00.000Z'' Genesis Adolescence
        ''First lunar cycle complete and naming ceremony completed'')
     = [\<lparr> eventId = ''01EV'', timestamp = ''2026-01-30T00:00:00.000Z'',
          fromPhase = Genesis, toPhase = Adolescence,
          reason = ''First lunar cycle complete and naming ceremony completed'',
          metadata = ''{}'' \<rparr>]
   \<and> kv (executeTransition plainRuntime ''2026-01-30T00:00:00.000Z'' ''01EV'' ''01HI''
        ''/home/agent'' readOnlyDiskWorld ''2026-01-01T00:00:00.000Z'' Genesis Adolescence
        ''First lunar cycle complete and naming ceremony completed'') ''phase''
     = Some (KvText ''adolescence'')
   \<and> map narrativeEvent (narrative_log
        (executeTransition plainRuntime ''2026-01-30T00:00:00.000Z'' ''01EV'' ''01HI''
          ''/home/agent'' readOnlyDiskWorld ''2026-01-01T00:00:00.000Z'' Genesis Adolescence
          ''First lunar cycle complete and naming ceremony completed''))
     = [ADOLESCENCE_BEGINS]
   \<and> map lockPhase (soul_phase_locks
        (executeTransition plainRuntime ''2026-01-30T00:00:00.000Z'' ''01EV'' ''01HI''
          ''/home/agent'' readOnlyDiskWorld ''2026-01-01T00:00:00.000Z'' Genesis Adolescence
          ''First lunar cycle complete and naming ceremony completed''))
     = [SoulGenesis]
   \<and> files (executeTransition plainRuntime ''2026-01-30T00:00:00.000Z'' ''01EV'' ''01HI''
        ''/home/agent'' readOnlyDiskWorld ''2026-01-01T00:00:00.000Z'' Genesis Adolescence
        ''First lunar cycle complete and naming ceremony completed'')
     = files readOnlyDiskWorld
   \<and> soul_history (executeTransition plainRuntime ''2026-01-30T00:00:00.000Z'' ''01EV'' ''01HI''
        ''/home/agent'' readOnlyDiskWorld ''2026-01-01T00:00:00.000Z'' Genesis Adolescence
        ''First lunar cycle complete and naming ceremony completed'')
     = []
   \<and> lifecycle_events readOnlyDiskWorld = []
   \<and> kv readOnlyDiskWorld ''phase'' = None
   \<and> narrative_log readOnlyDiskWorld = []
   \<and> soul_phase_locks readOnlyDiskWorld = []"
proof -
  have f: "writeFault readOnlyDiskWorld (''/home/agent'' @ ''/.automaton/SOUL.md'') \<noteq> None"
    by (simp add: readOnlyDiskWorld_fields)
  have l: "map lockPhase (soul_phase_locks
        (executeTransition plainRuntime ''2026-01-30T00:00:00.000Z'' ''01EV'' ''01HI''
          ''/home/agent'' readOnlyDiskWorld ''2026-01-01T00:00:00.000Z'' Genesis Adolescence
          ''First lunar cycle complete and naming ceremony completed''))
     = [SoulGenesis]"
    by (simp add: executeTransition_locks soulPhaseMap_def isPhaseLocked_def
        getSoulPhaseLock_def readOnlyDiskWorld_locks sampleSoul_genesisCore)
  show ?thesis
    by (simp add: l executeTransition_early_steps executeTransition_fault [OF f]
        readOnlyDiskWorld_fields readOnlyDiskWorld_locks setKV_def narrativeMap_def)
qed

text \<open>
  C3, amended. \<^verbatim>\<open>executeTransition(from, to, reason)\<close> performs its steps in
  sequence and without a transaction. In every case the lifecycle event is appended,
  the phase in the key-value table is set to \<open>to\<close>, the narrative event of \<open>to\<close> is
  appended with the text \<open>Phase transition: from \<rightarrow> to. reason\<close> (every target but
  genesis has one), and the stratum of the outgoing phase is locked: when \<open>from\<close> owns
  a stratum that has no lock row yet and the soul file holds a section for it, the row
  (locked by \<open>system\<close>, with the snapshot of the subsections) is appended to the lock
  table; otherwise the lock table stays as it was. These steps stay persisted whatever
  happens to the last two. When the soul file cannot be written, the error is caught:
  the soul file and the soul history stay as they were; the same when there is no soul
  file. When the soul file exists and can be written, it is rewritten with the new
  phase metadata and one history row is appended, with change source \<open>system\<close> and
  the reason \<open>Phase transition: from \<rightarrow> to\<close>.
\<close>

theorem C3_transition_steps:
  "lifecycle_events (executeTransition rt now eid hid home w birth fromP toP rsn)
     = lifecycle_events w @
         [\<lparr> eventId = eid, timestamp = now, fromPhase = fromP, toPhase = toP,
            reason = rsn, metadata = ''{}'' \<rparr>]
   \<and> kv (executeTransition rt now eid hid home w birth fromP toP rsn)
     = (kv w)(''phase'' \<mapsto> KvText (lifecyclePhaseName toP))
   \<and> narrative_log (executeTransition rt now eid hid home w birth fromP toP rsn)
     = narrative_log w @
         (case narrativeMap toP of
            Some ev \<Rightarrow>
              [\<lparr> narrativeBirthTimestamp = birth, narrativePhase = toP, narrativeEvent = ev,
                 narrativeText = transitionReason fromP toP @ ''. '' @ rsn \<rparr>]
          | None \<Rightarrow> [])
   \<and> (toP \<noteq> Genesis \<longrightarrow>
        narrativeMap toP \<noteq> None
        \<and> length (narrative_log (executeTransition rt now eid hid home w birth fromP toP rsn))
          = length (narrative_log w) + 1)
   \<and> (soulPhaseMap fromP = Some p \<and> \<not> isPhaseLocked w p
       \<and> files w (home @ ''/.automaton/SOUL.md'') = Some txt
       \<and> sectionOf (parseSoulMd rt now txt) p = Some section \<longrightarrow>
        soul_phase_locks (executeTransition rt now eid hid home w birth fromP toP rsn)
          = soul_phase_locks w @
              [\<lparr> lockPhase = p, lockLockedAt = now, lockedBy = ''system'',
                 contentSnapshot = JSON_stringify rt (subsections section) \<rparr>])
   \<and> (soulPhaseMap fromP = None \<or> (soulPhaseMap fromP = Some p \<and> isPhaseLocked w p)
       \<or> files w (home @ ''/.automaton/SOUL.md'') = None
       \<or> (soulPhaseMap fromP = Some p \<and> files w (home @ ''/.automaton/SOUL.md'') = Some txt
           \<and> sectionOf (parseSoulMd rt now txt) p = None) \<longrightarrow>
        soul_phase_locks (executeTransition rt now eid hid home w birth fromP toP rsn)
          = soul_phase_locks w)
   \<and> (writeFault w (home @ ''/.automaton/SOUL.md'') \<noteq> None
       \<or> files w (home @ ''/.automaton/SOUL.md'') = None \<longrightarrow>
        files (executeTransition rt now eid hid home w birth fromP toP rsn) = files w
        \<and> soul_history (executeTransition rt now eid hid home w birth fromP toP rsn)
            = soul_history w)
   \<and> (writeFault w (home @ ''/.automaton/SOUL.md'') = None
       \<and> files w (home @ ''/.automaton/SOUL.md'') = Some txt \<longrightarrow>
        files (executeTransition rt now eid hid home w birth fromP toP rsn)
          = (files w)(home @ ''/.automaton/SOUL.md'' \<mapsto>
              writeSoulMd rt (soulAfterTransition rt now txt fromP toP))
        \<and> soul_history (executeTransition rt now eid hid home w birth fromP toP rsn)
          = soul_history w @
              [\<lparr> historyId = hid,
                 historyVersion = js_add (getCurrentSoulVersion w) (Num 1),
                 historyContent = writeSoulMd rt (soulAfterTransition rt now txt fromP toP),
                 historyContentHash =
                   createHash rt (writeSoulMd rt (soulAfterTransition rt now txt fromP toP)),
                 changeSource = ''system'',
                 changeReason = Some (transitionReason fromP toP),
                 previousVersionId =
                   (case getLatestSoulHistory w of
                      Some h \<Rightarrow> if historyId h \<noteq> [] then Some (historyId h) else None
                    | None \<Rightarrow> None),
                 approvedBy = None,
                 historyCreatedAt = now \<rparr>])"
proof (intro conjI impI)
  show "lifecycle_events (executeTransition rt now eid hid home w birth fromP toP rsn)
     = lifecycle_events w @
         [\<lparr> eventId = eid, timestamp = now, fromPhase = fromP, toPhase = toP,
            reason = rsn, metadata = ''{}'' \<rparr>]"
    by (rule executeTransition_early_steps(1))
  show "kv (executeTransition rt now eid hid home w birth fromP toP rsn)
     = (kv w)(''phase'' \<mapsto> KvText (lifecyclePhaseName toP))"
    by (simp add: executeTransition_early_steps(2) setKV_def)
  show "narrative_log (executeTransition rt now eid hid home w birth fromP toP rsn)
     = narrative_log w @
         (case narrativeMap toP of
            Some ev \<Rightarrow>
              [\<lparr> narrativeBirthTimestamp = birth, narrativePhase = toP, narrativeEvent = ev,
                 narrativeText = transitionReason fromP toP @ ''. '' @ rsn \<rparr>]
          | None \<Rightarrow> [])"
    by (rule executeTransition_early_steps(3))
next
  assume "toP \<noteq> Genesis"
  then show "narrativeMap toP \<noteq> None"
    by (cases toP) (simp_all add: narrativeMap_def)
next
  assume "toP \<noteq> Genesis"
  then show "length (narrative_log (executeTransition rt now eid hid home w birth fromP toP rsn))
          = length (narrative_log w) + 1"
    by (cases toP) (simp_all add: executeTransition_early_steps(3) narrativeMap_def)
next
  assume "soulPhaseMap fromP = Some p \<and> \<not> isPhaseLocked w p
       \<and> files w (home @ ''/.automaton/SOUL.md'') = Some txt
       \<and> sectionOf (parseSoulMd rt now txt) p = Some section"
  then show "soul_phase_locks (executeTransition rt now eid hid home w birth fromP toP rsn)
          = soul_phase_locks w @
              [\<lparr> lockPhase = p, lockLockedAt = now, lockedBy = ''system'',
                 contentSnapshot = JSON_stringify rt (subsections section) \<rparr>]"
    by (simp add: executeTransition_locks)
next
  assume "soulPhaseMap fromP = None \<or> (soulPhaseMap fromP = Some p \<and> isPhaseLocked w p)
       \<or> files w (home @ ''/.automaton/SOUL.md'') = None
       \<or> (soulPhaseMap fromP = Some p \<and> files w (home @ ''/.automaton/SOUL.md'') = Some txt
           \<and> sectionOf (parseSoulMd rt now txt) p = None)"
  then show "soul_phase_locks (executeTransition rt now eid hid home w birth fromP toP rsn)
          = soul_phase_locks w"
    by (auto simp add: executeTransition_locks split: option.splits)
next
  assume a: "writeFault w (home @ ''/.automaton/SOUL.md'') \<noteq> None
       \<or> files w (home @ ''/.automaton/SOUL.md'') = None"
  show "files (executeTransition rt now eid hid home w birth fromP toP rsn) = files w"
    using a
    by (rule disjE) (simp_all add: executeTransition_fault(1) executeTransition_no_file(1))
  show "soul_history (executeTransition rt now eid hid home w birth fromP toP rsn)
            = soul_history w"
    using a
    by (rule disjE) (simp_all add: executeTransition_fault(2) executeTransition_no_file(2))
next
  assume a: "writeFault w (home @ ''/.automaton/SOUL.md'') = None
       \<and> files w (home @ ''/.automaton/SOUL.md'') = Some txt"
  then have f: "writeFault w (home @ ''/.automaton/SOUL.md'') = None"
    and s: "files w (home @ ''/.automaton/SOUL.md'') = Some txt"
    by simp_all
  show "files (executeTransition rt now eid hid home w birth fromP toP rsn)
          = (files w)(home @ ''/.automaton/SOUL.md'' \<mapsto>
              writeSoulMd rt (soulAfterTransition rt now txt fromP toP))"
    by (rule executeTransition_written_full(1) [OF f s])
  show "soul_history (executeTransition rt now eid hid home w birth fromP toP rsn)
          = soul_history w @
              [\<lparr> historyId = hid,
                 historyVersion = js_add (getCurrentSoulVersion w) (Num 1),
                 historyContent = writeSoulMd rt (soulAfterTransition rt now txt fromP toP),
                 historyContentHash =
                   createHash rt (writeSoulMd rt (soulAfterTransition rt now txt fromP toP)),
                 changeSource = ''system'',
                 changeReason = Some (transitionReason fromP toP),
                 previousVersionId =
                   (case getLatestSoulHistory w of
                      Some h \<Rightarrow> if historyId h \<noteq> [] then Some (historyId h) else None
                    | None \<Rightarrow> None),
                 approvedBy = None,
                 historyCreatedAt = now \<rparr>]"
    by (rule executeTransition_written_full(2) [OF f s])
qed

theorem C3_transition_steps_witness:
  "map changeReason (soul_history
     (executeTransition plainRuntime ''2026-01-30T00:00:00.000Z'' ''01EV'' ''01HI''
        ''/home/agent'' writableDiskWorld ''2026-01-01T00:00:00.000Z'' Genesis Adolescence
        ''First lunar cycle complete and naming ceremony completed''))
     = [Some (transitionReason Genesis Adolescence)]
   \<and> map toPhase (lifecycle_events
     (executeTransition plainRuntime ''2026-01-30T00:00:00.000Z'' ''01EV'' ''01HI''
        ''/home/agent'' writableDiskWorld ''2026-01-01T00:00:00.000Z'' Genesis Adolescence
        ''First lunar cycle complete and naming ceremony completed''))
     = [Adolescence]
   \<and> map narrativeEvent (narrative_log
     (executeTransition plainRuntime ''2026-01-30T00:00:00.000Z'' ''01EV'' ''01HI''
        ''/home/agent'' writableDiskWorld ''2026-01-01T00:00:00.000Z'' Genesis Adolescence
        ''First lunar cycle complete and naming ceremony completed''))
     = [ADOLESCENCE_BEGINS]
   \<and> soul_phase_locks
     (executeTransition plainRuntime ''2026-01-30T00:00:00.000Z'' ''01EV'' ''01HI''
        ''/home/agent'' writableDiskWorld ''2026-01-01T00:00:00.000Z'' Genesis Adolescence
        ''First lunar cycle complete and naming ceremony completed'')
     = [\<lparr> lockPhase = SoulGenesis, lockLockedAt = ''2026-01-30T00:00:00.000Z'',
          lockedBy = ''system'',
          contentSnapshot = ''{'' @ [quoteChar] @ ''Temperament'' @ [quoteChar] @ '':''
            @ [quoteChar] @ ''Curious'' @ [quoteChar] @ ''}'' \<rparr>]
   \<and> soul_history
     (executeTransition plainRuntime ''2026-01-30T00:00:00.000Z'' ''01EV'' ''01HI''
        ''/home/agent'' readOnlyDiskWorld ''2026-01-01T00:00:00.000Z'' Genesis Adolescence
        ''First lunar cycle complete and naming ceremony completed'') = []"
proof -
  have g: "soulPhaseMap Genesis = Some SoulGenesis"
    by (simp add: soulPhaseMap_def)
  have n: "\<not> isPhaseLocked writableDiskWorld SoulGenesis"
    by (simp add: isPhaseLocked_def getSoulPhaseLock_def writableDiskWorld_locks)
  show ?thesis
    using C3_transition_steps [of plainRuntime "''2026-01-30T00:00:00.000Z''" "''01EV''"
        "''01HI''" "''/home/agent''" writableDiskWorld "''2026-01-01T00:00:00.000Z''" Genesis
        Adolescence "''First lunar cycle complete and naming ceremony completed''"
        SoulGenesis sampleSoulText
        "\<lparr> subsections = [(''Temperament'', ''Curious'')], lockedAt = None,
           phase = SoulGenesis \<rparr>"]
      C3_transition_steps [of plainRuntime "''2026-01-30T00:00:00.000Z''" "''01EV''"
        "''01HI''" "''/home/agent''" readOnlyDiskWorld "''2026-01-01T00:00:00.000Z''" Genesis
        Adolescence "''First lunar cycle complete and naming ceremony completed''"
        SoulGenesis sampleSoulText
        "\<lparr> subsections = [(''Temperament'', ''Curious'')], lockedAt = None,
           phase = SoulGenesis \<rparr>"]
      g n sampleSoul_genesisCore stringify_temperament
    by (simp add: writableDiskWorld_fields writableDiskWorld_locks readOnlyDiskWorld_fields
        narrativeMap_def)
qed

subsection \<open>Bequests executor\<close>

lemma executeFixed_recipient:
  "resultRecipient (fst (executeFixed rt ex gb totals t w)) = recipient t"
  by (simp add: executeFixed_def transferRow_def Let_def split: prod.splits sum.splits)

lemma executeFixedAll_recipients:
  "map resultRecipient (fst (executeFixedAll rt ex gb totals ts w)) = map recipient ts"
proof (induction ts arbitrary: w)
  case Nil
  then show ?case by simp
next
  case (Cons t ts)
  have "resultRecipient (fst (executeFixed rt ex gb totals t w)) = recipient t"
    by (rule executeFixed_recipient)
  moreover have "map resultRecipient
      (fst (executeFixedAll rt ex gb totals ts (snd (executeFixed rt ex gb totals t w))))
      = map recipient ts"
    by (rule Cons.IH)
  ultimately show ?case
    by (simp add: split_beta Let_def)
qed

lemma executeRemaining_recipient:
  "resultRecipient (fst (executeRemaining ex t w)) = recipient t"
  by (simp add: executeRemaining_def split: prod.splits sum.splits)

lemma find_filter_single:
  "length (filter P xs) \<le> 1 \<Longrightarrow>
   (case find P xs of None \<Rightarrow> [] | Some x \<Rightarrow> [x]) = filter P xs"
  by (induction xs) (auto split: if_splits)

lemma valid_single_remaining:
  "fst (validateBequests rt b) \<Longrightarrow>
   length (filter (\<lambda>t. amount t = ''remaining_balance'') (transfers b)) \<le> 1"
  by (auto simp: validateBequests_def Let_def split: if_splits)

lemma executeBequests_invalid:
  assumes "transfers (parseBequests will) \<noteq> []"
    and "\<not> fst (validateBequests rt (parseBequests will))"
  shows "executeBequests rt will ex gb w
           = (map validationRow (snd (validateBequests rt (parseBequests will))), w)"
  using assms
  by (simp add: executeBequests_def Let_def split_beta)

lemma executeBequests_valid_recipients:
  assumes "transfers (parseBequests will) \<noteq> []"
    and "fst (validateBequests rt (parseBequests will))"
  shows "map resultRecipient (fst (executeBequests rt will ex gb w))
           = map recipient
               (filter (\<lambda>t. amount t \<noteq> ''remaining_balance'') (transfers (parseBequests will))
                @ filter (\<lambda>t. amount t = ''remaining_balance'') (transfers (parseBequests will)))"
proof -
  have eq: "filter (\<lambda>t. amount t = ''remaining_balance'') (transfers (parseBequests will))
        = (case find (\<lambda>t. amount t = ''remaining_balance'') (transfers (parseBequests will)) of
           None \<Rightarrow> [] | Some x \<Rightarrow> [x])"
    by (rule find_filter_single [OF valid_single_remaining [OF assms(2)], symmetric])
  show ?thesis
    using assms
    by (simp add: eq executeBequests_def Let_def split_beta executeFixedAll_recipients
        executeRemaining_recipient split: option.splits)
qed

lemma executeBequests_valid_length:
  assumes "transfers (parseBequests will) \<noteq> []"
    and "fst (validateBequests rt (parseBequests will))"
  shows "length (fst (executeBequests rt will ex gb w)) = length (transfers (parseBequests will))"
proof -
  have "length (map resultRecipient (fst (executeBequests rt will ex gb w)))
      = length (transfers (parseBequests will))"
    unfolding executeBequests_valid_recipients [OF assms]
    using sum_length_filter_compl [of "\<lambda>t. amount t = ''remaining_balance''" "transfers (parseBequests will)"]
    by simp
  then show ?thesis by simp
qed


lemma executeFixed_logged:
  "\<exists>row w1 evs. executeFixed rt (loggedTransfer ex) (loggedBalance gb) totals t (w, l)
       = (row, (w1, l @ evs))
     \<and> executeFixed rt ex gb totals t w = (row, w1)
     \<and> (\<exists>e. filter isDecisive evs = [e] \<and> settles e (t, row))"
  by (auto simp add: executeFixed_def transferRow_def loggedTransfer_def loggedBalance_def
      Let_def split: prod.splits sum.splits option.splits)


lemma executeFixedAll_logged:
  "\<exists>rows w1 evs. executeFixedAll rt (loggedTransfer ex) (loggedBalance gb) totals ts (w, l)
       = (rows, (w1, l @ evs))
     \<and> executeFixedAll rt ex gb totals ts w = (rows, w1)
     \<and> length rows = length ts
     \<and> list_all2 settles (filter isDecisive evs) (zip ts rows)"
proof (induction ts arbitrary: w l)
  case Nil
  then show ?case by simp
next
  case (Cons t ts)
  obtain row w1 evs e where
    a: "executeFixed rt (loggedTransfer ex) (loggedBalance gb) totals t (w, l)
          = (row, (w1, l @ evs))"
    and b: "executeFixed rt ex gb totals t w = (row, w1)"
    and c: "filter isDecisive evs = [e]" "settles e (t, row)"
    using executeFixed_logged [of rt ex gb totals t w l] by blast
  obtain rows w2 evs2 where
    d: "executeFixedAll rt (loggedTransfer ex) (loggedBalance gb) totals ts (w1, l @ evs)
          = (rows, (w2, (l @ evs) @ evs2))"
    and e: "executeFixedAll rt ex gb totals ts w1 = (rows, w2)"
    and f: "length rows = length ts"
      "list_all2 settles (filter isDecisive evs2) (zip ts rows)"
    using Cons.IH [of w1 "l @ evs"] by blast
  show ?case
    using a b c d e f by simp
qed

lemma executeRemaining_logged:
  assumes "amount t = ''remaining_balance''"
  shows "\<exists>row w1 e. executeRemaining (loggedTransfer ex) t (w, l) = (row, (w1, l @ [e]))
     \<and> executeRemaining ex t w = (row, w1)
     \<and> isDecisive e \<and> settles e (t, row)"
  using assms
  by (auto simp add: executeRemaining_def loggedTransfer_def split: prod.splits sum.splits)

lemma find_remaining:
  "find P xs = Some x \<Longrightarrow> P x"
  by (induction xs) (auto split: if_splits)

lemma executeBequests_logged:
  assumes ne: "transfers (parseBequests will) \<noteq> []"
    and ok: "fst (validateBequests rt (parseBequests will))"
  shows "\<exists>rows w1 evs.
       executeBequests rt will (loggedTransfer ex) (loggedBalance gb) (w, []) = (rows, (w1, evs))
     \<and> executeBequests rt will ex gb w = (rows, w1)
     \<and> list_all2 settles (filter isDecisive evs)
          (zip (filter (\<lambda>t. amount t \<noteq> ''remaining_balance'') (transfers (parseBequests will))
                @ filter (\<lambda>t. amount t = ''remaining_balance'') (transfers (parseBequests will)))
             rows)"
proof -
  let ?ts = "transfers (parseBequests will)"
  let ?fixed = "filter (\<lambda>t. amount t \<noteq> ''remaining_balance'') ?ts"
  let ?totals = "fixedTotals rt ?fixed"
  have eq: "filter (\<lambda>t. amount t = ''remaining_balance'') ?ts
        = (case find (\<lambda>t. amount t = ''remaining_balance'') ?ts of
           None \<Rightarrow> [] | Some x \<Rightarrow> [x])"
    by (rule find_filter_single [OF valid_single_remaining [OF ok], symmetric])
  obtain rows w1 evs where
    a: "executeFixedAll rt (loggedTransfer ex) (loggedBalance gb) ?totals ?fixed (w, [])
          = (rows, (w1, [] @ evs))"
    and b: "executeFixedAll rt ex gb ?totals ?fixed w = (rows, w1)"
    and c: "length rows = length ?fixed"
      "list_all2 settles (filter isDecisive evs) (zip ?fixed rows)"
    using executeFixedAll_logged [of rt ex gb ?totals ?fixed w "[]"] by blast
  show ?thesis
  proof (cases "find (\<lambda>t. amount t = ''remaining_balance'') ?ts")
    case None
    then show ?thesis
      using ne ok a b c
      by (simp add: eq executeBequests_def Let_def split_beta)
  next
    case (Some t)
    then have "amount t = ''remaining_balance''"
      by (rule find_remaining)
    then obtain row w2 e where
      d: "executeRemaining (loggedTransfer ex) t (w1, evs) = (row, (w2, evs @ [e]))"
      and e: "executeRemaining ex t w1 = (row, w2)"
      and f: "isDecisive e" "settles e (t, row)"
      using executeRemaining_logged [of t ex w1 evs] by blast
    have "list_all2 settles (filter isDecisive evs @ [e]) (zip ?fixed rows @ [(t, row)])"
      using c(2) f(2) by (simp add: list_all2_appendI)
    then show ?thesis
      using ne ok a b c(1) d e f(1) Some
      by (simp add: eq executeBequests_def Let_def split_beta)
  qed
qed

lemma parse_willWithBadEntry:
  "parseBequests willWithBadEntry =
     \<lparr> transfers =
         [\<lparr> recipient = ''not-an-address'', asset = ''USDC'', amount = ''70'',
            chain = ''base'', transferNote = ''for you'' \<rparr>,
          \<lparr> recipient = ''0x2222222222222222222222222222222222222222'', asset = ''USDC'',
            amount = ''60'', chain = ''base'', transferNote = ''for you'' \<rparr>] \<rparr>"
  by code_simp

lemma validate_willWithBadEntry:
  "validateBequests plainRuntime
     \<lparr> transfers =
         [\<lparr> recipient = ''not-an-address'', asset = ''USDC'', amount = ''70'',
            chain = ''base'', transferNote = ''for you'' \<rparr>,
          \<lparr> recipient = ''0x2222222222222222222222222222222222222222'', asset = ''USDC'',
            amount = ''60'', chain = ''base'', transferNote = ''for you'' \<rparr>] \<rparr>
   = (False, [''Invalid recipient address: not-an-address''])"
  by code_simp

lemma parse_validWill:
  "parseBequests validWill =
     \<lparr> transfers =
         [\<lparr> recipient = ''0x1111111111111111111111111111111111111111'', asset = ''USDC'',
            amount = ''70'', chain = ''base'', transferNote = ''for you'' \<rparr>,
          \<lparr> recipient = ''0x3333333333333333333333333333333333333333'', asset = ''USDC'',
            amount = ''remaining_balance'', chain = ''base'', transferNote = ''for you'' \<rparr>,
          \<lparr> recipient = ''0x2222222222222222222222222222222222222222'', asset = ''USDC'',
            amount = ''60'', chain = ''base'', transferNote = ''for you'' \<rparr>] \<rparr>"
  by code_simp

lemma validate_validWill:
  "validateBequests plainRuntime
     \<lparr> transfers =
         [\<lparr> recipient = ''0x1111111111111111111111111111111111111111'', asset = ''USDC'',
            amount = ''70'', chain = ''base'', transferNote = ''for you'' \<rparr>,
          \<lparr> recipient = ''0x3333333333333333333333333333333333333333'', asset = ''USDC'',
            amount = ''remaining_balance'', chain = ''base'', transferNote = ''for you'' \<rparr>,
          \<lparr> recipient = ''0x2222222222222222222222222222222222222222'', asset = ''USDC'',
            amount = ''60'', chain = ''base'', transferNote = ''for you'' \<rparr>] \<rparr>
   = (True, [])"
  by code_simp

text \<open>
  C9, as the claim states it, fails for an entry that does not validate: the will below
  holds a malformed recipient and a valid second entry, and \<^verbatim>\<open>executeBequests\<close>
  returns the validation error alone, without attempting any transfer (the record of
  attempted transfers stays empty).
\<close>

theorem C9_validation_aborts_counterexample:
  "executeBequests plainRuntime willWithBadEntry (recordingTransfer addressOne)
     (constantBalance (Num 100)) []
   = ([\<lparr> resultRecipient = ''validation'', resultAsset = [], resultAmount = [],
         txHash = None, transferSuccess = False,
         transferError = Some ''Invalid recipient address: not-an-address'' \<rparr>], [])"
  by (simp add: executeBequests_invalid parse_willWithBadEntry validate_willWithBadEntry
      validationRow_def)

text \<open>
  C9, amended. Validation is for the table as a whole: if any entry of a non-empty table
  fails it, \<^verbatim>\<open>executeBequests\<close> returns one failure row for each validation error
  (recipient \<open>validation\<close>) and calls neither callback, so that no transfer is
  attempted. If the table validates, every entry yields exactly one result row, the
  fixed transfers in declared order and the \<^verbatim>\<open>remaining_balance\<close> transfer last.
  Whatever the callbacks return or throw, each entry in that order is settled by
  exactly one decisive event, the attempt of its transfer or, for a fixed amount, a
  balance lookup that throws, and its row reports the outcome of that event: the hash
  of a transfer that succeeded, the message of the error otherwise. No transfer is
  attempted besides these. So the failure of one transfer does not abort the transfers
  after it.
\<close>

theorem C9_validation_whole_table_transfers_independent:
  assumes "transfers (parseBequests will) \<noteq> []"
  shows "(\<not> fst (validateBequests rt (parseBequests will)) \<longrightarrow>
            executeBequests rt will ex gb w
              = (map validationRow (snd (validateBequests rt (parseBequests will))), w)
            \<and> executeBequests rt will (loggedTransfer ex) (loggedBalance gb) (w, [])
              = (map validationRow (snd (validateBequests rt (parseBequests will))), (w, [])))
       \<and> (fst (validateBequests rt (parseBequests will)) \<longrightarrow>
            length (fst (executeBequests rt will ex gb w))
              = length (transfers (parseBequests will))
            \<and> map resultRecipient (fst (executeBequests rt will ex gb w))
              = map recipient
                  (filter (\<lambda>t. amount t \<noteq> ''remaining_balance'')
                     (transfers (parseBequests will))
                   @ filter (\<lambda>t. amount t = ''remaining_balance'')
                      (transfers (parseBequests will)))
            \<and> (\<exists>rows w1 evs.
                  executeBequests rt will (loggedTransfer ex) (loggedBalance gb) (w, [])
                    = (rows, (w1, evs))
                  \<and> executeBequests rt will ex gb w = (rows, w1)
                  \<and> list_all2 settles (filter isDecisive evs)
                       (zip (filter (\<lambda>t. amount t \<noteq> ''remaining_balance'')
                               (transfers (parseBequests will))
                             @ filter (\<lambda>t. amount t = ''remaining_balance'')
                                 (transfers (parseBequests will)))
                          rows)))"
proof (intro conjI impI)
  assume bad: "\<not> fst (validateBequests rt (parseBequests will))"
  show "executeBequests rt will ex gb w
      = (map validationRow (snd (validateBequests rt (parseBequests will))), w)"
    by (rule executeBequests_invalid [OF assms bad])
  show "executeBequests rt will (loggedTransfer ex) (loggedBalance gb) (w, [])
      = (map validationRow (snd (validateBequests rt (parseBequests will))), (w, []))"
    by (rule executeBequests_invalid [OF assms bad])
next
  assume ok: "fst (validateBequests rt (parseBequests will))"
  show "length (fst (executeBequests rt will ex gb w))
      = length (transfers (parseBequests will))"
    by (rule executeBequests_valid_length [OF assms ok])
  show "map resultRecipient (fst (executeBequests rt will ex gb w))
      = map recipient
          (filter (\<lambda>t. amount t \<noteq> ''remaining_balance'') (transfers (parseBequests will))
           @ filter (\<lambda>t. amount t = ''remaining_balance'') (transfers (parseBequests will)))"
    by (rule executeBequests_valid_recipients [OF assms ok])
  show "\<exists>rows w1 evs.
      executeBequests rt will (loggedTransfer ex) (loggedBalance gb) (w, []) = (rows, (w1, evs))
      \<and> executeBequests rt will ex gb w = (rows, w1)
      \<and> list_all2 settles (filter isDecisive evs)
           (zip (filter (\<lambda>t. amount t \<noteq> ''remaining_balance'')
                   (transfers (parseBequests will))
                 @ filter (\<lambda>t. amount t = ''remaining_balance'')
                     (transfers (parseBequests will)))
              rows)"
    by (rule executeBequests_logged [OF assms ok])
qed

lemma exec_validWill:
  "map transferSuccess (fst (executeBequests plainRuntime validWill
      (recordingTransfer addressOne) (constantBalance (Num 100)) [])) = [False, True, True]"
  "snd (executeBequests plainRuntime validWill
      (recordingTransfer addressOne) (constantBalance (Num 100)) [])
    = [addressOne, addressTwo, addressThree]"
  by (simp_all add: executeBequests_def parse_validWill validate_validWill Let_def
      executeFixed_def transferRow_def executeRemaining_def recordingTransfer_def
      constantBalance_def addressOne_def addressTwo_def addressThree_def)

theorem C9_validation_whole_table_transfers_independent_witness:
  "map resultRecipient (fst (executeBequests plainRuntime validWill
      (recordingTransfer addressOne) (constantBalance (Num 100)) []))
     = [addressOne, addressTwo, addressThree]
   \<and> map transferSuccess (fst (executeBequests plainRuntime validWill
      (recordingTransfer addressOne) (constantBalance (Num 100)) [])) = [False, True, True]
   \<and> snd (executeBequests plainRuntime validWill
      (recordingTransfer addressOne) (constantBalance (Num 100)) [])
     = [addressOne, addressTwo, addressThree]"
  using C9_validation_whole_table_transfers_independent [of validWill plainRuntime "recordingTransfer addressOne"
      "constantBalance (Num 100)" "[]"] exec_validWill
  by (simp add: parse_validWill validate_validWill addressOne_def addressTwo_def
      addressThree_def)

subsection \<open>Soul store: the round trip\<close>

lemma parseSoulMd_v1:
  "splitFrontmatter txt = Some (fm, body) \<Longrightarrow> searchAny matchFormatV1 fm \<noteq> None \<Longrightarrow>
   parseSoulMd rt now txt = parseSoulV1 rt now fm body txt (createHash rt txt)"
  by (simp add: parseSoulMd_def Let_def)

lemma parseSoulV1_header:
  "lastReflected (parseSoulV1 rt now fm body raw hash) = getField fm ''last_reflected''"
  "address (parseSoulV1 rt now fm body raw hash) = getField fm ''address''"
  by (simp_all add: parseSoulV1_def Let_def)

lemma sameModel_fields:
  assumes "sameModel a b"
  shows "lastReflected a = lastReflected b \<and> address a = address b"
proof -
  from assms have e: "a\<lparr> updatedAt := [], rawContent := [], contentHash := [] \<rparr>
      = b\<lparr> updatedAt := [], rawContent := [], contentHash := [] \<rparr>"
    by (simp add: sameModel_def)
  have "lastReflected (a\<lparr> updatedAt := [], rawContent := [], contentHash := [] \<rparr>)
      = lastReflected (b\<lparr> updatedAt := [], rawContent := [], contentHash := [] \<rparr>)"
    by (simp only: e)
  moreover have "address (a\<lparr> updatedAt := [], rawContent := [], contentHash := [] \<rparr>)
      = address (b\<lparr> updatedAt := [], rawContent := [], contentHash := [] \<rparr>)"
    by (simp only: e)
  ultimately show ?thesis by simp
qed

lemma parse_preMetadataSoul:
  "parseSoulMd plainRuntime ''2026-03-01T00:00:00.000Z'' preMetadataSoul = preMetadataModel"
  by code_simp

lemma write_preMetadataModel: "writeSoulMd plainRuntime preMetadataModel = rewrittenSoul"
  by code_simp

lemma split_rewrittenSoul:
  "splitFrontmatter rewrittenSoul = Some (rewrittenFrontmatter, rewrittenBody)"
  by code_simp

lemma format_rewrittenFrontmatter: "searchAny matchFormatV1 rewrittenFrontmatter \<noteq> None"
  by code_simp

lemma lastReflected_rewrittenFrontmatter:
  "getField rewrittenFrontmatter ''last_reflected'' = ''current_phase: genesis''"
  by code_simp

text \<open>
  C4 fails on the code. For the well-formed soul/v1 document \<open>preMetadataSoul\<close> the
  parser gives an empty \<open>lastReflected\<close>; the writer emits the empty value followed by
  the line \<^verbatim>\<open>current_phase: genesis\<close>; parsing that text, the \<^verbatim>\<open>\s*\<close> of the field
  pattern runs over the line end and \<open>lastReflected\<close> becomes the next line. The two
  models differ in a field the law does not set aside.
\<close>

theorem C4_round_trip_changes_lastReflected:
  "lastReflected (parseSoulMd plainRuntime ''2026-03-01T00:00:00.000Z'' preMetadataSoul) = []
   \<and> lastReflected (parseSoulMd plainRuntime ''2026-03-01T00:00:00.000Z''
        (writeSoulMd plainRuntime
          (parseSoulMd plainRuntime ''2026-03-01T00:00:00.000Z'' preMetadataSoul)))
     = ''current_phase: genesis''
   \<and> \<not> sameModel
        (parseSoulMd plainRuntime ''2026-03-01T00:00:00.000Z''
          (writeSoulMd plainRuntime
            (parseSoulMd plainRuntime ''2026-03-01T00:00:00.000Z'' preMetadataSoul)))
        (parseSoulMd plainRuntime ''2026-03-01T00:00:00.000Z'' preMetadataSoul)"
proof -
  have a: "lastReflected
      (parseSoulMd plainRuntime ''2026-03-01T00:00:00.000Z'' preMetadataSoul) = []"
    by (simp add: parse_preMetadataSoul preMetadataModel_def)
  have b: "lastReflected (parseSoulMd plainRuntime ''2026-03-01T00:00:00.000Z''
        (writeSoulMd plainRuntime
          (parseSoulMd plainRuntime ''2026-03-01T00:00:00.000Z'' preMetadataSoul)))
     = ''current_phase: genesis''"
    by (simp only: parse_preMetadataSoul write_preMetadataModel
        parseSoulMd_v1 [OF split_rewrittenSoul format_rewrittenFrontmatter]
        parseSoulV1_header lastReflected_rewrittenFrontmatter)
  from a b sameModel_fields show ?thesis
    by fastforce
qed

text \<open>The same on a document of the repository's tests, which has no address line.\<close>

lemma parse_fixtureSoul:
  "parseSoulMd plainRuntime ''2026-03-01T00:00:00.000Z'' fixtureSoul = fixtureModel"
  by code_simp

lemma write_fixtureModel: "writeSoulMd plainRuntime fixtureModel = fixtureRewritten"
  by code_simp

lemma split_fixtureRewritten:
  "splitFrontmatter fixtureRewritten = Some (fixtureRewrittenFrontmatter, fixtureRewrittenBody)"
  by code_simp

lemma format_fixtureRewrittenFrontmatter:
  "searchAny matchFormatV1 fixtureRewrittenFrontmatter \<noteq> None"
  by code_simp

lemma address_fixtureRewrittenFrontmatter:
  "getField fixtureRewrittenFrontmatter ''address'' = ''creator:''"
  by code_simp

lemma round_trip_changes_address_of_fixture:
  "address (parseSoulMd plainRuntime ''2026-03-01T00:00:00.000Z'' fixtureSoul) = []
   \<and> address (parseSoulMd plainRuntime ''2026-03-01T00:00:00.000Z''
        (writeSoulMd plainRuntime
          (parseSoulMd plainRuntime ''2026-03-01T00:00:00.000Z'' fixtureSoul)))
     = ''creator:''
   \<and> \<not> sameModel
        (parseSoulMd plainRuntime ''2026-03-01T00:00:00.000Z''
          (writeSoulMd plainRuntime
            (parseSoulMd plainRuntime ''2026-03-01T00:00:00.000Z'' fixtureSoul)))
        (parseSoulMd plainRuntime ''2026-03-01T00:00:00.000Z'' fixtureSoul)"
proof -
  have a: "address (parseSoulMd plainRuntime ''2026-03-01T00:00:00.000Z'' fixtureSoul) = []"
    by (simp add: parse_fixtureSoul fixtureModel_def)
  have b: "address (parseSoulMd plainRuntime ''2026-03-01T00:00:00.000Z''
        (writeSoulMd plainRuntime
          (parseSoulMd plainRuntime ''2026-03-01T00:00:00.000Z'' fixtureSoul)))
     = ''creator:''"
    by (simp only: parse_fixtureSoul write_fixtureModel
        parseSoulMd_v1 [OF split_fixtureRewritten format_fixtureRewrittenFrontmatter]
        parseSoulV1_header address_fixtureRewrittenFrontmatter)
  from a b sameModel_fields show ?thesis
    by fastforce
qed

end
